theory Spec2Isabelle
  imports Main "HOL-Library.Word" "HOL-Library.Signed_Division" "HOL-Library.Multiset" "HOL-Library.Monad_Syntax"
begin

unbundle bit_operations_syntax

section \<open>Control-flow flattening of Lua bytecode (lobfuscate.c): the model\<close>

subsection \<open>C integers\<close>

text \<open>
  A C \<open>int\<close> is a HOL \<open>int\<close>; where a product can leave the 32-bit range the
  two's-complement wrap is written out with \<open>c_int\<close>. \<open>unsigned int\<close> is \<open>32 word\<close>
  and \<open>uint64_t\<close> is \<open>64 word\<close>. C's \<open>%\<close> on \<open>int\<close> truncates towards zero: \<open>smod\<close>.
\<close>

definition c_int :: "int \<Rightarrow> int" where
  "c_int x = signed_take_bit 31 x"

text \<open>\<open>NEXT_RAND(seed)\<close>: \<open>seed = LCG_A * seed + LCG_C\<close> on \<open>unsigned int\<close>.\<close>

definition LCG_A :: "32 word" where "LCG_A = 1664525"
definition LCG_C :: "32 word" where "LCG_C = 1013904223"

definition NEXT_RAND :: "32 word \<Rightarrow> 32 word" where
  "NEXT_RAND seed = LCG_A * seed + LCG_C"

subsection \<open>State encoding\<close>

text \<open>
  \<open>luaO_encodeState\<close>: \<open>offset = (int)(seed % range)\<close>,
  \<open>encoded = ((state * prime) % range + offset) % range\<close>, made non-negative.
\<close>

definition luaO_encodeState :: "int \<Rightarrow> 32 word \<Rightarrow> int" where
  "luaO_encodeState state seed =
     (let range = 30000;
          prime = 7919;
          offset = uint (seed mod 30000);
          encoded = (c_int (state * prime) smod range + offset) smod range
      in if encoded < 0 then encoded + range else encoded)"

text \<open>\<open>luaO_decodeState\<close> returns its argument (the seed is ignored).\<close>

definition luaO_decodeState :: "int \<Rightarrow> 32 word \<Rightarrow> int" where
  "luaO_decodeState encoded_state seed = encoded_state"

subsection \<open>Instructions of the host VM\<close>

text \<open>
  Modelled from the spec: the host's instruction abstraction (lopcodes.h is not among
  the sources). An instruction is an opcode plus operand fields under one of the
  addressing modes; the constructors are named after the macros that build them, and
  the fields hold the raw (unsigned, offset) operands those macros take. An opcode is
  its number; the numbers are the positions in the name table of \<open>getOpName\<close>,
  which that function indexes by opcode.
\<close>

type_synonym OpCode = nat

datatype Instruction =
    CREATE_ABCk OpCode int int int int
  | CREATE_ABx OpCode int int
  | CREATE_Ax OpCode int
  | CREATE_sJ OpCode int int

definition OP_MOVE :: OpCode where "OP_MOVE = 0"
definition OP_LOADI :: OpCode where "OP_LOADI = 1"
definition OP_ADDI :: OpCode where "OP_ADDI = 21"
definition OP_SHLI :: OpCode where "OP_SHLI = 32"
definition OP_ADD :: OpCode where "OP_ADD = 34"
definition OP_SUB :: OpCode where "OP_SUB = 35"
definition OP_MUL :: OpCode where "OP_MUL = 36"
definition OP_MMBIN :: OpCode where "OP_MMBIN = 47"
definition OP_LEN :: OpCode where "OP_LEN = 53"
definition OP_JMP :: OpCode where "OP_JMP = 57"
definition OP_EQ :: OpCode where "OP_EQ = 58"
definition OP_LT :: OpCode where "OP_LT = 59"
definition OP_LE :: OpCode where "OP_LE = 60"
definition OP_EQK :: OpCode where "OP_EQK = 61"
definition OP_EQI :: OpCode where "OP_EQI = 62"
definition OP_LTI :: OpCode where "OP_LTI = 63"
definition OP_LEI :: OpCode where "OP_LEI = 64"
definition OP_GTI :: OpCode where "OP_GTI = 65"
definition OP_GEI :: OpCode where "OP_GEI = 66"
definition OP_TEST :: OpCode where "OP_TEST = 67"
definition OP_TESTSET :: OpCode where "OP_TESTSET = 68"
definition OP_TAILCALL :: OpCode where "OP_TAILCALL = 70"
definition OP_RETURN :: OpCode where "OP_RETURN = 71"
definition OP_RETURN0 :: OpCode where "OP_RETURN0 = 72"
definition OP_RETURN1 :: OpCode where "OP_RETURN1 = 73"
definition OP_FORLOOP :: OpCode where "OP_FORLOOP = 74"
definition OP_FORPREP :: OpCode where "OP_FORPREP = 75"
definition OP_TFORPREP :: OpCode where "OP_TFORPREP = 76"
definition OP_TFORCALL :: OpCode where "OP_TFORCALL = 77"
definition OP_TFORLOOP :: OpCode where "OP_TFORLOOP = 78"
definition OP_TESTNIL :: OpCode where "OP_TESTNIL = 86"
definition OP_NOP :: OpCode where "OP_NOP = 100"


datatype OpMode = iABC | iABx | iAsBx | iAx | isJ

text \<open>
  What lobfuscate.c takes from lopcodes.h beyond the opcodes: the excess offsets of the
  signed operands, the number of opcodes and the addressing mode of each opcode. They
  are parameters of the model.
\<close>

record lopcodes =
  OFFSET_sBx :: int
  OFFSET_sJ :: int
  OFFSET_sC :: int
  NUM_OPCODES :: nat
  getOpMode :: "OpCode \<Rightarrow> OpMode"

fun GET_OPCODE :: "Instruction \<Rightarrow> OpCode" where
  "GET_OPCODE (CREATE_ABCk o' a b c k) = o'"
| "GET_OPCODE (CREATE_ABx o' a bc) = o'"
| "GET_OPCODE (CREATE_Ax o' a) = o'"
| "GET_OPCODE (CREATE_sJ o' j k) = o'"

text \<open>
  The accessors read the field of the matching addressing mode. On an instruction of
  another mode the C macro reads overlapping bits of a layout that is not among the
  sources; the model reads 0 there.
\<close>

fun GETARG_A :: "Instruction \<Rightarrow> int" where
  "GETARG_A (CREATE_ABCk o' a b c k) = a"
| "GETARG_A (CREATE_ABx o' a bc) = a"
| "GETARG_A _ = 0"

fun GETARG_B :: "Instruction \<Rightarrow> int" where
  "GETARG_B (CREATE_ABCk o' a b c k) = b"
| "GETARG_B _ = 0"

fun GETARG_C :: "Instruction \<Rightarrow> int" where
  "GETARG_C (CREATE_ABCk o' a b c k) = c"
| "GETARG_C _ = 0"

fun GETARG_k :: "Instruction \<Rightarrow> int" where
  "GETARG_k (CREATE_ABCk o' a b c k) = k"
| "GETARG_k (CREATE_sJ o' j k) = k"
| "GETARG_k _ = 0"

fun GETARG_Bx :: "Instruction \<Rightarrow> int" where
  "GETARG_Bx (CREATE_ABx o' a bc) = bc"
| "GETARG_Bx _ = 0"

definition GETARG_sBx :: "lopcodes \<Rightarrow> Instruction \<Rightarrow> int" where
  "GETARG_sBx H i = GETARG_Bx i - OFFSET_sBx H"

fun GETARG_Ax :: "Instruction \<Rightarrow> int" where
  "GETARG_Ax (CREATE_Ax o' a) = a"
| "GETARG_Ax _ = 0"

fun GETARG_sJ :: "lopcodes \<Rightarrow> Instruction \<Rightarrow> int" where
  "GETARG_sJ H (CREATE_sJ o' j k) = j - OFFSET_sJ H"
| "GETARG_sJ H _ = 0 - OFFSET_sJ H"

fun SETARG_sJ :: "lopcodes \<Rightarrow> Instruction \<Rightarrow> int \<Rightarrow> Instruction" where
  "SETARG_sJ H (CREATE_sJ o' j k) v = CREATE_sJ o' (v + OFFSET_sJ H) k"
| "SETARG_sJ H i v = i"

definition int2sC :: "lopcodes \<Rightarrow> int \<Rightarrow> int" where
  "int2sC H i = i + OFFSET_sC H"

subsection \<open>Opcode classes\<close>

definition luaO_isBlockTerminator :: "OpCode \<Rightarrow> bool" where
  "luaO_isBlockTerminator op \<longleftrightarrow>
     op \<in> {OP_JMP, OP_EQ, OP_LT, OP_LE, OP_EQK, OP_EQI, OP_LTI, OP_LEI, OP_GTI, OP_GEI,
           OP_TEST, OP_TESTSET, OP_TESTNIL, OP_RETURN, OP_RETURN0, OP_RETURN1,
           OP_TAILCALL, OP_FORLOOP, OP_FORPREP, OP_TFORPREP, OP_TFORLOOP, OP_TFORCALL}"

definition luaO_isJumpInstruction :: "OpCode \<Rightarrow> bool" where
  "luaO_isJumpInstruction op \<longleftrightarrow>
     op \<in> {OP_JMP, OP_FORLOOP, OP_FORPREP, OP_TFORPREP, OP_TFORLOOP}"

definition isConditionalTest :: "OpCode \<Rightarrow> bool" where
  "isConditionalTest op \<longleftrightarrow>
     op \<in> {OP_EQ, OP_LT, OP_LE, OP_EQK, OP_EQI, OP_LTI, OP_LEI, OP_GTI, OP_GEI,
           OP_TEST, OP_TESTSET, OP_TESTNIL}"

definition isReturnInstruction :: "OpCode \<Rightarrow> bool" where
  "isReturnInstruction op \<longleftrightarrow> op \<in> {OP_RETURN, OP_RETURN0, OP_RETURN1, OP_TAILCALL}"

definition luaO_getJumpTarget :: "lopcodes \<Rightarrow> Instruction \<Rightarrow> int \<Rightarrow> int" where
  "luaO_getJumpTarget H inst pc =
     (let op = GET_OPCODE inst in
      if op = OP_JMP then pc + 1 + GETARG_sJ H inst
      else if op = OP_FORLOOP \<or> op = OP_TFORLOOP then pc + 1 - GETARG_Bx inst
      else if op = OP_FORPREP \<or> op = OP_TFORPREP then pc + 1 + GETARG_Bx inst
      else -1)"

subsection \<open>Host objects\<close>

record VMCodeTable =
  vt_proto :: nat
  vt_code :: "64 word list"
  vt_size :: int
  vt_capacity :: int
  vt_encrypt_key :: "64 word"
  vt_reverse_map :: "int list"
  vt_seed :: "32 word"

text \<open>
  Modelled from the spec: allocation (lmem.c is not among the sources). A request
  either succeeds or fails; the state of the allocator is the number of further
  requests it grants. A request names its size in bytes, a \<open>size_t\<close> of 64 bits, and
  a request for 0 bytes yields \<open>NULL\<close>, as \<open>luaM_malloc_\<close> and \<open>luaM_realloc_\<close> of the
  Lua distribution do. Releasing memory does not enter the model.
\<close>

record lua_State =
  allocs :: nat

text \<open>\<open>G(L)\<close>: the process-wide list of VM code tables.\<close>

record global_State =
  vm_code_list :: "VMCodeTable list"

definition luaM_malloc :: "lua_State \<Rightarrow> 64 word \<Rightarrow> lua_State option" where
  "luaM_malloc L size0 =
     (if size0 = 0 \<or> allocs L = 0 then None else Some (L\<lparr>allocs := allocs L - 1\<rparr>))"

definition luaM_realloc :: "lua_State \<Rightarrow> 64 word \<Rightarrow> lua_State option" where
  "luaM_realloc L nsize =
     (if nsize = 0 \<or> allocs L = 0 then None else Some (L\<lparr>allocs := allocs L - 1\<rparr>))"

text \<open>
  The sizes the requests are made of. \<open>sizeof(int)\<close> is 4, \<open>VMInstruction\<close> is
  \<open>uint64_t\<close> and \<open>BasicBlock\<close> is eight \<open>int\<close>s; the three structures with pointers
  have their sizes on a target with 64-bit pointers, and \<open>Instruction\<close> (llimits.h is
  not among the sources) is the 4-byte word of the Lua distribution. Of these sizes
  the allocator only asks whether a product with them is 0.
\<close>

definition sizeof_int :: "64 word" where "sizeof_int = 4"
definition sizeof_Instruction :: "64 word" where "sizeof_Instruction = 4"
definition sizeof_VMInstruction :: "64 word" where "sizeof_VMInstruction = 8"
definition sizeof_BasicBlock :: "64 word" where "sizeof_BasicBlock = 32"
definition sizeof_CFFContext :: "64 word" where "sizeof_CFFContext = 104"
definition sizeof_VMProtectContext :: "64 word" where "sizeof_VMProtectContext = 64"
definition sizeof_VMCodeTable :: "64 word" where "sizeof_VMCodeTable = 56"

text \<open>
  Modelled from the spec: the host's function representation (lobject.h is not among
  the sources), with the fields that lobfuscate.c reads or writes. \<open>sizecode\<close> is the
  length of \<open>code\<close>; \<open>proto_addr\<close> stands for the address of the structure, the
  identity under which a VM code table refers to its function.
\<close>

record Proto =
  proto_addr :: nat
  code :: "Instruction list"
  maxstacksize :: int
  difierline_mode :: int
  difierline_magicnum :: int
  difierline_data :: "64 word"
  vm_code_table :: "VMCodeTable option"

abbreviation sizecode :: "Proto \<Rightarrow> int" where
  "sizecode p \<equiv> int (length (code p))"

record BasicBlock =
  start_pc :: int
  end_pc :: int
  state_id :: int
  original_target :: int
  fall_through :: int
  cond_target :: int
  is_entry :: int
  is_exit :: int

record CFFContext =
  L :: lua_State
  f :: Proto
  blocks :: "BasicBlock list"
  block_capacity :: int
  new_code :: "Instruction list"
  new_code_capacity :: int
  state_reg :: int
  outer_state_reg :: int
  opaque_reg1 :: int
  opaque_reg2 :: int
  func_id_reg :: int
  dispatcher_pc :: int
  outer_dispatcher_pc :: int
  num_groups :: int
  group_starts :: "int list"
  num_fake_funcs :: int
  seed :: "32 word"
  obfuscate_flags :: int

abbreviation num_blocks :: "CFFContext \<Rightarrow> int" where
  "num_blocks ctx \<equiv> int (length (blocks ctx))"

abbreviation new_code_size :: "CFFContext \<Rightarrow> int" where
  "new_code_size ctx \<equiv> int (length (new_code ctx))"

definition INITIAL_BLOCK_CAPACITY :: int where "INITIAL_BLOCK_CAPACITY = 16"
definition INITIAL_CODE_CAPACITY :: int where "INITIAL_CODE_CAPACITY = 64"
definition CFF_MAGIC :: int where "CFF_MAGIC = 0x43464600"
definition CFF_VERSION :: int where "CFF_VERSION = 1"

definition initContext :: "lua_State \<Rightarrow> Proto \<Rightarrow> int \<Rightarrow> 32 word \<Rightarrow> CFFContext option" where
  "initContext L0 p flags seed0 =
     (case luaM_malloc L0 sizeof_CFFContext of
        None \<Rightarrow> None
      | Some L1 \<Rightarrow>
          (case luaM_malloc L1 (sizeof_BasicBlock * word_of_int INITIAL_BLOCK_CAPACITY) of
             None \<Rightarrow> None
           | Some L2 \<Rightarrow>
               Some \<lparr> L = L2, f = p, blocks = [], block_capacity = INITIAL_BLOCK_CAPACITY,
                      new_code = [], new_code_capacity = 0,
                      state_reg = maxstacksize p,
                      outer_state_reg = maxstacksize p + 1,
                      opaque_reg1 = maxstacksize p + 2,
                      opaque_reg2 = maxstacksize p + 3,
                      func_id_reg = maxstacksize p + 4,
                      dispatcher_pc = 0, outer_dispatcher_pc = 0,
                      num_groups = 0, group_starts = [], num_fake_funcs = 0,
                      seed = seed0, obfuscate_flags = flags \<rparr>))"

definition addBlock :: "CFFContext \<Rightarrow> int \<Rightarrow> int \<Rightarrow> (int \<times> CFFContext) option" where
  "addBlock ctx start end =
     (case (if num_blocks ctx \<ge> block_capacity ctx
            then (let new_capacity = block_capacity ctx * 2 in
                  case luaM_realloc (L ctx) (sizeof_BasicBlock * word_of_int new_capacity) of
                    None \<Rightarrow> None
                  | Some L1 \<Rightarrow> Some (ctx\<lparr>L := L1, block_capacity := new_capacity\<rparr>))
            else Some ctx) of
        None \<Rightarrow> None
      | Some ctx1 \<Rightarrow>
          (let idx = num_blocks ctx1;
               block = \<lparr> start_pc = start, end_pc = end, state_id = idx,
                         original_target = -1, fall_through = -1, cond_target = -1,
                         is_entry = (if start = 0 then 1 else 0), is_exit = 0 \<rparr>
           in Some (idx, ctx1\<lparr>blocks := blocks ctx1 @ [block]\<rparr>)))"

fun findBlockByPC_from :: "BasicBlock list \<Rightarrow> int \<Rightarrow> int \<Rightarrow> int" where
  "findBlockByPC_from [] i pc = -1"
| "findBlockByPC_from (b # bs) i pc =
     (if pc \<ge> start_pc b \<and> pc < end_pc b then i else findBlockByPC_from bs (i + 1) pc)"

definition findBlockByPC :: "CFFContext \<Rightarrow> int \<Rightarrow> int" where
  "findBlockByPC ctx pc = findBlockByPC_from (blocks ctx) 0 pc"

fun findBlockStartingAt_from :: "BasicBlock list \<Rightarrow> int \<Rightarrow> int \<Rightarrow> int" where
  "findBlockStartingAt_from [] i pc = -1"
| "findBlockStartingAt_from (b # bs) i pc =
     (if start_pc b = pc then i else findBlockStartingAt_from bs (i + 1) pc)"

definition findBlockStartingAt :: "CFFContext \<Rightarrow> int \<Rightarrow> int" where
  "findBlockStartingAt ctx pc = findBlockStartingAt_from (blocks ctx) 0 pc"

subsection \<open>Block identification\<close>

definition mark_leaders :: "lopcodes \<Rightarrow> Instruction list \<Rightarrow> bool list \<Rightarrow> nat \<Rightarrow> bool list" where
  "mark_leaders H cs is_leader pc =
     (let code_size = int (length cs);
          inst = cs ! pc;
          op = GET_OPCODE inst;
          is_leader =
            (if luaO_isJumpInstruction op then
               (let target = luaO_getJumpTarget H inst (int pc);
                    is_leader = (if target \<ge> 0 \<and> target < code_size
                                 then is_leader[nat target := True] else is_leader)
                in if int pc + 1 < code_size \<and> op \<noteq> OP_JMP
                   then is_leader[pc + 1 := True] else is_leader)
             else is_leader);
          is_leader =
            (if isConditionalTest op then
               (if int pc + 2 < code_size then is_leader[pc + 2 := True] else is_leader)
             else is_leader);
          is_leader =
            (if isReturnInstruction op then
               (if int pc + 1 < code_size then is_leader[pc + 1 := True] else is_leader)
             else is_leader)
      in is_leader)"

fun split_blocks :: "bool list \<Rightarrow> nat \<Rightarrow> nat list \<Rightarrow> nat \<Rightarrow> CFFContext \<Rightarrow> CFFContext option" where
  "split_blocks is_leader code_size [] block_start ctx = Some ctx"
| "split_blocks is_leader code_size (pc # pcs) block_start ctx =
     (if pc = code_size \<or> is_leader ! pc then
        (case addBlock ctx (int block_start) (int pc) of
           None \<Rightarrow> None
         | Some (idx, ctx1) \<Rightarrow> split_blocks is_leader code_size pcs pc ctx1)
      else split_blocks is_leader code_size pcs block_start ctx)"

definition analyze_exit :: "lopcodes \<Rightarrow> CFFContext \<Rightarrow> nat \<Rightarrow> CFFContext" where
  "analyze_exit H ctx i =
     (let block = blocks ctx ! i;
          last_pc = end_pc block - 1;
          code_size = sizecode (f ctx)
      in if last_pc < 0 \<or> last_pc \<ge> code_size then ctx
         else
           (let inst = code (f ctx) ! nat last_pc;
                op = GET_OPCODE inst;
                block = (if isReturnInstruction op then block\<lparr>is_exit := 1\<rparr> else block);
                block =
                  (if luaO_isJumpInstruction op then
                     (let target = luaO_getJumpTarget H inst last_pc in
                      if target \<ge> 0 then
                        (let block = block\<lparr>original_target := findBlockStartingAt ctx target\<rparr>
                         in if op \<noteq> OP_JMP
                            then block\<lparr>fall_through := findBlockStartingAt ctx (end_pc block)\<rparr>
                            else block)
                      else block)
                   else block);
                block =
                  (if isConditionalTest op then
                     block\<lparr>cond_target := findBlockStartingAt ctx (last_pc + 2),
                           fall_through := findBlockStartingAt ctx (end_pc block)\<rparr>
                   else block);
                block =
                  (if \<not> luaO_isBlockTerminator op \<and> end_pc block < code_size
                   then block\<lparr>fall_through := findBlockStartingAt ctx (end_pc block)\<rparr>
                   else block)
            in ctx\<lparr>blocks := (blocks ctx)[i := block]\<rparr>))"

definition luaO_identifyBlocks :: "lopcodes \<Rightarrow> CFFContext \<Rightarrow> CFFContext option" where
  "luaO_identifyBlocks H ctx =
     (let cs = code (f ctx);
          code_size = length cs
      in if int code_size \<le> 0 then None
         else
           (case luaM_malloc (L ctx) (word_of_nat code_size) of
              None \<Rightarrow> None
            | Some L1 \<Rightarrow>
                (let is_leader = (replicate code_size False)[0 := True];
                     is_leader = foldl (mark_leaders H cs) is_leader [0..<code_size]
                 in case split_blocks is_leader code_size [1..<code_size + 1] 0 (ctx\<lparr>L := L1\<rparr>) of
                      None \<Rightarrow> None
                    | Some ctx1 \<Rightarrow>
                        Some (foldl (analyze_exit H) ctx1 [0..<length (blocks ctx1)]))))"

subsection \<open>Shuffling the state ids\<close>

fun shuffle_loop :: "nat \<Rightarrow> 32 word \<Rightarrow> BasicBlock list \<Rightarrow> 32 word \<times> BasicBlock list" where
  "shuffle_loop 0 sd bs = (sd, bs)"
| "shuffle_loop (Suc n) sd bs =
     (let i = Suc n in
      if i > 1 then
        (let sd = NEXT_RAND sd;
             j = nat (1 + uint sd mod int i);
             temp = state_id (bs ! i);
             bs = bs[i := (bs ! i)\<lparr>state_id := state_id (bs ! j)\<rparr>];
             bs = bs[j := (bs ! j)\<lparr>state_id := temp\<rparr>]
         in shuffle_loop n sd bs)
      else (sd, bs))"

definition luaO_shuffleBlocks :: "CFFContext \<Rightarrow> CFFContext" where
  "luaO_shuffleBlocks ctx =
     (if num_blocks ctx \<le> 2 then ctx
      else (case shuffle_loop (length (blocks ctx) - 1) (seed ctx) (blocks ctx) of
              (sd, bs) \<Rightarrow> ctx\<lparr>blocks := bs, seed := sd\<rparr>))"

subsection \<open>Flags and array access\<close>

definition OBFUSCATE_CFF :: int where "OBFUSCATE_CFF = 1"
definition OBFUSCATE_BLOCK_SHUFFLE :: int where "OBFUSCATE_BLOCK_SHUFFLE = 2"
definition OBFUSCATE_BOGUS_BLOCKS :: int where "OBFUSCATE_BOGUS_BLOCKS = 4"
definition OBFUSCATE_STATE_ENCODE :: int where "OBFUSCATE_STATE_ENCODE = 8"
definition OBFUSCATE_NESTED_DISPATCHER :: int where "OBFUSCATE_NESTED_DISPATCHER = 16"
definition OBFUSCATE_OPAQUE_PREDICATES :: int where "OBFUSCATE_OPAQUE_PREDICATES = 32"
definition OBFUSCATE_FUNC_INTERLEAVE :: int where "OBFUSCATE_FUNC_INTERLEAVE = 64"
definition OBFUSCATE_VM_PROTECT :: int where "OBFUSCATE_VM_PROTECT = 128"

text \<open>\<open>flags & MASK\<close> as a C condition.\<close>

definition has_flag :: "int \<Rightarrow> int \<Rightarrow> bool" where
  "has_flag flags m \<longleftrightarrow> (flags AND m) \<noteq> 0"

text \<open>
  The functions that emit code return \<open>None\<close> where the C function returns -1. They
  also return \<open>None\<close> where the C code has no defined result: an array access outside
  the array (\<open>read_at\<close>), a division by zero, or a capacity loop that does not end.
\<close>

definition read_at :: "'a list \<Rightarrow> int \<Rightarrow> 'a option" where
  "read_at xs i = (if 0 \<le> i \<and> i < int (length xs) then Some (xs ! nat i) else None)"

definition alloc :: "CFFContext \<Rightarrow> 64 word \<Rightarrow> CFFContext option" where
  "alloc ctx size0 =
     (case luaM_malloc (L ctx) size0 of None \<Rightarrow> None | Some L1 \<Rightarrow> Some (ctx\<lparr>L := L1\<rparr>))"

subsection \<open>Emitting instructions\<close>

text \<open>\<open>while (new_capacity < required) new_capacity *= 2\<close>\<close>

partial_function (option) grow_capacity :: "int \<Rightarrow> int \<Rightarrow> int option" where
  "grow_capacity new_capacity required =
     (if new_capacity < required then grow_capacity (new_capacity * 2) required
      else Some new_capacity)"

declare grow_capacity.simps [code]

text \<open>\<open>ctx->new_code\<close> is \<open>NULL\<close> exactly while the capacity is 0.\<close>

definition ensureCodeCapacity :: "CFFContext \<Rightarrow> int \<Rightarrow> CFFContext option" where
  "ensureCodeCapacity ctx needed =
     (let required = new_code_size ctx + needed in
      if required \<le> new_code_capacity ctx then Some ctx
      else
        (case grow_capacity (if new_code_capacity ctx = 0 then INITIAL_CODE_CAPACITY
                             else new_code_capacity ctx) required of
           None \<Rightarrow> None
         | Some new_capacity \<Rightarrow>
             (case (if new_code_capacity ctx = 0
                    then luaM_malloc (L ctx) (sizeof_Instruction * word_of_int new_capacity)
                    else luaM_realloc (L ctx) (sizeof_Instruction * word_of_int new_capacity)) of
                None \<Rightarrow> None
              | Some L1 \<Rightarrow> Some (ctx\<lparr>L := L1, new_code_capacity := new_capacity\<rparr>))))"

definition emitInstruction :: "CFFContext \<Rightarrow> Instruction \<Rightarrow> (int \<times> CFFContext) option" where
  "emitInstruction ctx inst =
     (case ensureCodeCapacity ctx 1 of
        None \<Rightarrow> None
      | Some ctx1 \<Rightarrow> Some (new_code_size ctx1, ctx1\<lparr>new_code := new_code ctx1 @ [inst]\<rparr>))"

text \<open>Emitting without using the returned pc, and a run of such emissions.\<close>

definition emit :: "CFFContext \<Rightarrow> Instruction \<Rightarrow> CFFContext option" where
  "emit ctx inst = map_option snd (emitInstruction ctx inst)"

fun emit_all :: "CFFContext \<Rightarrow> Instruction list \<Rightarrow> CFFContext option" where
  "emit_all ctx [] = Some ctx"
| "emit_all ctx (i # is) =
     (case emit ctx i of None \<Rightarrow> None | Some ctx1 \<Rightarrow> emit_all ctx1 is)"

text \<open>\<open>SETARG_sJ(ctx->new_code[jmp_pc], offset)\<close>\<close>

definition patch_sJ :: "lopcodes \<Rightarrow> CFFContext \<Rightarrow> int \<Rightarrow> int \<Rightarrow> CFFContext option" where
  "patch_sJ H ctx jmp_pc offset =
     (case read_at (new_code ctx) jmp_pc of
        None \<Rightarrow> None
      | Some i \<Rightarrow> Some (ctx\<lparr>new_code := (new_code ctx)[nat jmp_pc := SETARG_sJ H i offset]\<rparr>))"

text \<open>The state written into the generated code: encoded when the flag is set.\<close>

definition encoded_state :: "CFFContext \<Rightarrow> 32 word \<Rightarrow> int \<Rightarrow> int" where
  "encoded_state ctx sd s =
     (if has_flag (obfuscate_flags ctx) OBFUSCATE_STATE_ENCODE then luaO_encodeState s sd else s)"

subsection \<open>Bogus instructions and bogus blocks\<close>

definition BOGUS_BLOCK_RATIO :: int where "BOGUS_BLOCK_RATIO = 2"
definition BOGUS_BLOCK_MIN_INSTS :: int where "BOGUS_BLOCK_MIN_INSTS = 3"
definition BOGUS_BLOCK_MAX_INSTS :: int where "BOGUS_BLOCK_MAX_INSTS = 8"
definition NUM_FAKE_FUNCTIONS :: int where "NUM_FAKE_FUNCTIONS = 3"
definition FAKE_FUNC_BLOCKS :: int where "FAKE_FUNC_BLOCKS = 4"
definition FAKE_BLOCK_INSTS :: int where "FAKE_BLOCK_INSTS = 5"

text \<open>
  \<open>*seed % max_reg\<close> is an unsigned remainder by \<open>(unsigned)max_reg\<close>, read back as
  an \<open>int\<close>; \<open>(*seed % 1000) - 500\<close> is an unsigned difference read back as an
  \<open>int\<close>.
\<close>

definition generateBogusInstruction ::
  "lopcodes \<Rightarrow> CFFContext \<Rightarrow> 32 word \<Rightarrow> (Instruction \<times> 32 word) option" where
  "generateBogusInstruction H ctx sd0 =
     (let max_reg = (word_of_int (state_reg ctx) :: 32 word);
          sd = NEXT_RAND sd0;
          inst_type = sint (sd mod 4);
          sd = NEXT_RAND sd
      in if max_reg = 0 then None
         else
           (let reg = sint (sd mod max_reg);
                reg = (if reg < 0 then 0 else reg);
                sd = NEXT_RAND sd;
                val = sint (sd mod 1000 - 500)
            in if inst_type = 0 then
                 Some (CREATE_ABx OP_LOADI reg (val + OFFSET_sBx H), sd)
               else if inst_type = 1 then
                 Some (CREATE_ABCk OP_ADDI reg reg (int2sC H (val smod 100)) 0, sd)
               else if inst_type = 2 then
                 (let sd = NEXT_RAND sd;
                      src_reg = sint (sd mod max_reg);
                      src_reg = (if src_reg < 0 then 0 else src_reg)
                  in Some (CREATE_ABCk OP_MOVE reg src_reg 0 0, sd))
               else
                 (let sd = NEXT_RAND sd
                  in Some (CREATE_ABx OP_LOADI reg (uint (sd mod 2000) + OFFSET_sBx H), sd))))"

text \<open>\<open>n\<close> bogus instructions in a row, each emitted as it is generated.\<close>

fun emit_bogus_insts ::
  "lopcodes \<Rightarrow> nat \<Rightarrow> CFFContext \<Rightarrow> 32 word \<Rightarrow> (CFFContext \<times> 32 word) option" where
  "emit_bogus_insts H 0 ctx sd = Some (ctx, sd)"
| "emit_bogus_insts H (Suc n) ctx sd =
     (case generateBogusInstruction H ctx sd of
        None \<Rightarrow> None
      | Some (inst, sd1) \<Rightarrow>
          (case emit ctx inst of
             None \<Rightarrow> None
           | Some ctx1 \<Rightarrow> emit_bogus_insts H n ctx1 sd1))"

text \<open>\<open>emitBogusBlock\<close> has no caller in lobfuscate.c.\<close>

definition emitBogusBlock ::
  "lopcodes \<Rightarrow> CFFContext \<Rightarrow> int \<Rightarrow> 32 word \<Rightarrow> (CFFContext \<times> 32 word) option" where
  "emitBogusBlock H ctx bogus_state sd0 =
     (let sd = NEXT_RAND sd0;
          num_insts = BOGUS_BLOCK_MIN_INSTS
                        + uint (sd mod word_of_int (BOGUS_BLOCK_MAX_INSTS - BOGUS_BLOCK_MIN_INSTS + 1))
      in case emit_bogus_insts H (nat num_insts) ctx sd of
           None \<Rightarrow> None
         | Some (ctx1, sd1) \<Rightarrow>
             (let sd2 = NEXT_RAND sd1;
                  next_state = bogus_state + 1 + uint (sd2 mod 3);
                  next_state = encoded_state ctx1 (seed ctx1) next_state
              in case emit ctx1 (CREATE_ABx OP_LOADI (state_reg ctx1) (next_state + OFFSET_sBx H)) of
                   None \<Rightarrow> None
                 | Some ctx2 \<Rightarrow>
                     (let jmp_offset = dispatcher_pc ctx2 - new_code_size ctx2 - 1
                      in case emit ctx2 (CREATE_sJ OP_JMP (jmp_offset + OFFSET_sJ H) 0) of
                           None \<Rightarrow> None
                         | Some ctx3 \<Rightarrow> Some (ctx3, sd2))))"

subsection \<open>Opaque predicates\<close>

datatype OpaquePredicateType = OP_ALWAYS_TRUE | OP_ALWAYS_FALSE

definition NUM_OPAQUE_VARIANTS :: "32 word" where "NUM_OPAQUE_VARIANTS = 4"

definition emitAlwaysTruePredicate ::
  "lopcodes \<Rightarrow> CFFContext \<Rightarrow> 32 word \<Rightarrow> (CFFContext \<times> 32 word) option" where
  "emitAlwaysTruePredicate H ctx sd0 =
     (let reg1 = opaque_reg1 ctx;
          reg2 = opaque_reg2 ctx;
          sd = NEXT_RAND sd0;
          variant = sint (sd mod NUM_OPAQUE_VARIANTS);
          sd = NEXT_RAND sd;
          random_val = sint (sd mod 1000 - 500);
          load = CREATE_ABx OP_LOADI reg1 (random_val + OFFSET_sBx H);
          insts =
            (if variant = 0 then
               [load, CREATE_ABCk OP_MUL reg2 reg1 reg1 0,
                CREATE_ABCk OP_GEI reg2 (int2sC H 0) 0 0]
             else if variant = 1 then
               [load, CREATE_ABCk OP_ADDI reg2 reg1 (int2sC H 0) 0,
                CREATE_ABCk OP_EQ reg2 reg1 0 0]
             else if variant = 2 then
               [load, CREATE_ABCk OP_SHLI reg2 reg1 (int2sC H 1) 0,
                CREATE_ABCk OP_SUB reg2 reg2 reg1 0,
                CREATE_ABCk OP_EQ reg2 reg1 0 0]
             else
               [load, CREATE_ABCk OP_SUB reg2 reg1 reg1 0,
                CREATE_ABCk OP_EQI reg2 (int2sC H 0) 0 0])
      in map_option (\<lambda>c. (c, sd)) (emit_all ctx insts))"

definition emitAlwaysFalsePredicate ::
  "lopcodes \<Rightarrow> CFFContext \<Rightarrow> 32 word \<Rightarrow> (CFFContext \<times> 32 word) option" where
  "emitAlwaysFalsePredicate H ctx sd0 =
     (let reg1 = opaque_reg1 ctx;
          reg2 = opaque_reg2 ctx;
          sd = NEXT_RAND sd0;
          variant = sint (sd mod 3);
          sd = NEXT_RAND sd;
          random_val = sint (sd mod 1000 - 500);
          load = CREATE_ABx OP_LOADI reg1 (random_val + OFFSET_sBx H);
          insts =
            (if variant = 0 then
               [load, CREATE_ABCk OP_MUL reg2 reg1 reg1 0,
                CREATE_ABCk OP_LTI reg2 (int2sC H 0) 0 0]
             else if variant = 1 then
               [load, CREATE_ABCk OP_SUB reg2 reg1 reg1 0,
                CREATE_ABCk OP_EQI reg2 (int2sC H 0) 0 1]
             else
               [load, CREATE_ABCk OP_ADDI reg2 reg1 (int2sC H 1) 0,
                CREATE_ABCk OP_EQ reg2 reg1 0 0])
      in map_option (\<lambda>c. (c, sd)) (emit_all ctx insts))"

definition luaO_emitOpaquePredicate ::
  "lopcodes \<Rightarrow> CFFContext \<Rightarrow> OpaquePredicateType \<Rightarrow> 32 word
     \<Rightarrow> (int \<times> CFFContext \<times> 32 word) option" where
  "luaO_emitOpaquePredicate H ctx type sd =
     (let start_size = new_code_size ctx in
      case (if type = OP_ALWAYS_TRUE then emitAlwaysTruePredicate H ctx sd
            else emitAlwaysFalsePredicate H ctx sd) of
        None \<Rightarrow> None
      | Some (ctx1, sd1) \<Rightarrow> Some (new_code_size ctx1 - start_size, ctx1, sd1))"

subsection \<open>Function interleaving\<close>

text \<open>
  \<open>FakeFuncType\<close> is \<open>func_id % 4\<close>: 0 the calculator, 1 the string, 2 the table
  template, anything else the loop template. Instruction \<open>i\<close> of a fake block:
\<close>

definition fake_block_inst ::
  "lopcodes \<Rightarrow> CFFContext \<Rightarrow> int \<Rightarrow> int \<Rightarrow> int \<Rightarrow> 32 word \<Rightarrow> Instruction" where
  "fake_block_inst H ctx func_type block_idx i sd =
     (let reg_base = opaque_reg1 ctx in
      if func_type = 0 then
        (let val = sint (sd mod 200 - 100) in
         if i mod 4 = 0 then CREATE_ABx OP_LOADI reg_base (val + OFFSET_sBx H)
         else if i mod 4 = 1 then
           CREATE_ABCk OP_ADDI (reg_base + 1) reg_base (int2sC H (val smod 50)) 0
         else if i mod 4 = 2 then CREATE_ABCk OP_MUL reg_base reg_base (reg_base + 1) 0
         else CREATE_ABCk OP_MMBIN reg_base (reg_base + 1) 14 0)
      else if func_type = 1 then
        (if i mod 3 = 0 then CREATE_ABCk OP_MOVE (reg_base + i mod 2) reg_base 0 0
         else if i mod 3 = 1 then CREATE_ABCk OP_LEN reg_base (reg_base + 1) 0 0
         else CREATE_ABx OP_LOADI reg_base (uint (sd mod 100) + OFFSET_sBx H))
      else if func_type = 2 then
        (if i mod 3 = 0 then CREATE_ABx OP_LOADI reg_base (uint (sd mod 50) + OFFSET_sBx H)
         else if i mod 3 = 1 then CREATE_ABCk OP_MOVE (reg_base + 1) reg_base 0 0
         else CREATE_ABCk OP_ADD reg_base reg_base (reg_base + 1) 0)
      else
        (if i mod 4 = 0 then CREATE_ABx OP_LOADI reg_base (block_idx + OFFSET_sBx H)
         else if i mod 4 = 1 then CREATE_ABCk OP_ADDI reg_base reg_base (int2sC H 1) 0
         else if i mod 4 = 2 then CREATE_ABCk OP_MMBIN reg_base reg_base 6 0
         else CREATE_ABCk OP_MOVE (reg_base + 1) reg_base 0 0))"

fun emit_fake_insts ::
  "lopcodes \<Rightarrow> int \<Rightarrow> int \<Rightarrow> int list \<Rightarrow> CFFContext \<Rightarrow> 32 word
     \<Rightarrow> (CFFContext \<times> 32 word) option" where
  "emit_fake_insts H func_type block_idx [] ctx sd = Some (ctx, sd)"
| "emit_fake_insts H func_type block_idx (i # is) ctx sd =
     (let sd1 = NEXT_RAND sd in
      case emit ctx (fake_block_inst H ctx func_type block_idx i sd1) of
        None \<Rightarrow> None
      | Some ctx1 \<Rightarrow> emit_fake_insts H func_type block_idx is ctx1 sd1)"

definition emitFakeFunctionBlock ::
  "lopcodes \<Rightarrow> CFFContext \<Rightarrow> int \<Rightarrow> int \<Rightarrow> 32 word \<Rightarrow> (CFFContext \<times> 32 word) option" where
  "emitFakeFunctionBlock H ctx func_type block_idx sd =
     emit_fake_insts H func_type block_idx [0..FAKE_BLOCK_INSTS - 1] ctx sd"

text \<open>\<open>emitFakeFunction\<close>: the guard; it returns the block count, the context and
  \<open>*entry_jmp_pc\<close>.\<close>

definition emitFakeFunction ::
  "lopcodes \<Rightarrow> CFFContext \<Rightarrow> int \<Rightarrow> 32 word \<Rightarrow> (int \<times> CFFContext \<times> int) option" where
  "emitFakeFunction H ctx func_id sd =
     (let encoded_func_id = func_id + 100;
          encoded_func_id =
            encoded_state ctx (seed ctx XOR 0xABCDEF00) encoded_func_id
      in case emit ctx (CREATE_ABCk OP_EQI (func_id_reg ctx) (int2sC H encoded_func_id) 0 1) of
           None \<Rightarrow> None
         | Some ctx1 \<Rightarrow>
             (case emitInstruction ctx1 (CREATE_sJ OP_JMP 0 0) of
                None \<Rightarrow> None
              | Some (entry_jmp_pc, ctx2) \<Rightarrow> Some (FAKE_FUNC_BLOCKS, ctx2, entry_jmp_pc)))"

text \<open>The blocks \<open>b, b + 1, ...\<close> of one fake function.\<close>

fun emit_fake_blocks ::
  "lopcodes \<Rightarrow> int \<Rightarrow> int list \<Rightarrow> CFFContext \<Rightarrow> 32 word \<Rightarrow> (CFFContext \<times> 32 word) option" where
  "emit_fake_blocks H func_id [] ctx sd = Some (ctx, sd)"
| "emit_fake_blocks H func_id (b # bs) ctx sd =
     (case emitFakeFunctionBlock H ctx (func_id smod 4) b sd of
        None \<Rightarrow> None
      | Some (ctx1, sd1) \<Rightarrow>
          (let sd2 = NEXT_RAND sd1 in
           case (if b < FAKE_FUNC_BLOCKS - 1 then Some ((func_id + 100) * 10 + b + 1, sd2)
                 else
                   (let sd3 = NEXT_RAND sd2 in
                    if (word_of_int (num_blocks ctx1) :: 32 word) = 0 then None
                    else Some (sint (sd3 mod word_of_int (num_blocks ctx1)), sd3))) of
             None \<Rightarrow> None
           | Some (next_state, sd4) \<Rightarrow>
               (let next_state = encoded_state ctx1 (seed ctx1) next_state in
                case emit ctx1 (CREATE_ABx OP_LOADI (state_reg ctx1) (next_state + OFFSET_sBx H)) of
                  None \<Rightarrow> None
                | Some ctx2 \<Rightarrow>
                    (let jmp_offset = dispatcher_pc ctx2 - new_code_size ctx2 - 1 in
                     case emit ctx2 (CREATE_sJ OP_JMP (jmp_offset + OFFSET_sJ H) 0) of
                       None \<Rightarrow> None
                     | Some ctx3 \<Rightarrow> emit_fake_blocks H func_id bs ctx3 sd4))))"

definition emitFakeFunctionBlocks ::
  "lopcodes \<Rightarrow> CFFContext \<Rightarrow> int \<Rightarrow> 32 word \<Rightarrow> int \<Rightarrow> (CFFContext \<times> 32 word) option" where
  "emitFakeFunctionBlocks H ctx func_id sd entry_jmp_pc =
     (let first_block_pc = new_code_size ctx;
          offset = first_block_pc - entry_jmp_pc - 1
      in case patch_sJ H ctx entry_jmp_pc offset of
           None \<Rightarrow> None
         | Some ctx1 \<Rightarrow> emit_fake_blocks H func_id [0..FAKE_FUNC_BLOCKS - 1] ctx1 sd)"

subsection \<open>The flat dispatcher\<close>

text \<open>The state id of the first block with \<open>is_entry\<close> set, 0 if there is none.\<close>

fun entry_state_of :: "BasicBlock list \<Rightarrow> int" where
  "entry_state_of [] = 0"
| "entry_state_of (b # bs) = (if is_entry b \<noteq> 0 then state_id b else entry_state_of bs)"

text \<open>
  The comparison ladder of the real blocks. The loop state is the context, the
  opaque-predicate counter and seed, and the array \<open>all_block_jmp_pcs\<close>, which
  records the pc of every placeholder jump \<open>CREATE_sJ(OP_JMP, 0, 0)\<close>.
\<close>

fun emit_real_compares ::
  "lopcodes \<Rightarrow> nat list \<Rightarrow> CFFContext \<Rightarrow> int \<Rightarrow> 32 word \<Rightarrow> int list
     \<Rightarrow> (CFFContext \<times> int list) option" where
  "emit_real_compares H [] ctx opaque_counter opaque_seed jmp_pcs = Some (ctx, jmp_pcs)"
| "emit_real_compares H (i # is) ctx opaque_counter opaque_seed jmp_pcs =
     (case (if has_flag (obfuscate_flags ctx) OBFUSCATE_OPAQUE_PREDICATES \<and> opaque_counter \<ge> 3
            then
              (case luaO_emitOpaquePredicate H ctx OP_ALWAYS_TRUE opaque_seed of
                 None \<Rightarrow> None
               | Some (n, ctx1, sd1) \<Rightarrow>
                   (let dead_code_size = 3 in
                    case emit ctx1 (CREATE_sJ OP_JMP (dead_code_size + OFFSET_sJ H) 0) of
                      None \<Rightarrow> None
                    | Some ctx2 \<Rightarrow>
                        (case emit_bogus_insts H (nat dead_code_size) ctx2 sd1 of
                           None \<Rightarrow> None
                         | Some (ctx3, sd2) \<Rightarrow> Some (ctx3, 0, sd2))))
            else Some (ctx, opaque_counter, opaque_seed)) of
        None \<Rightarrow> None
      | Some (ctx4, opaque_counter1, opaque_seed1) \<Rightarrow>
          (let opaque_counter2 = opaque_counter1 + 1;
               st = state_id (blocks ctx4 ! i);
               st = encoded_state ctx4 (seed ctx4) st
           in case emit ctx4 (CREATE_ABCk OP_EQI (state_reg ctx4) (int2sC H st) 0 1) of
                None \<Rightarrow> None
              | Some ctx5 \<Rightarrow>
                  (case emitInstruction ctx5 (CREATE_sJ OP_JMP 0 0) of
                     None \<Rightarrow> None
                   | Some (jmp_pc, ctx6) \<Rightarrow>
                       emit_real_compares H is ctx6 opaque_counter2 opaque_seed1
                         (jmp_pcs[i := jmp_pc]))))"

text \<open>
  The ladder of the bogus states \<open>bogus_states[i] = num_blocks + i\<close>; the pc of each
  placeholder jump goes to \<open>all_block_jmp_pcs[num_blocks + i]\<close>.
\<close>

fun emit_bogus_compares ::
  "lopcodes \<Rightarrow> nat list \<Rightarrow> CFFContext \<Rightarrow> int list \<Rightarrow> (CFFContext \<times> int list) option" where
  "emit_bogus_compares H [] ctx jmp_pcs = Some (ctx, jmp_pcs)"
| "emit_bogus_compares H (i # is) ctx jmp_pcs =
     (let st = num_blocks ctx + int i;
          st = encoded_state ctx (seed ctx) st
      in case emit ctx (CREATE_ABCk OP_EQI (state_reg ctx) (int2sC H st) 0 1) of
           None \<Rightarrow> None
         | Some ctx1 \<Rightarrow>
             (case emitInstruction ctx1 (CREATE_sJ OP_JMP 0 0) of
                None \<Rightarrow> None
              | Some (jmp_pc, ctx2) \<Rightarrow>
                  emit_bogus_compares H is ctx2 (jmp_pcs[length (blocks ctx) + i := jmp_pc])))"

text \<open>The guards of the fake functions; \<open>fake_func_jmp_pcs[f]\<close> is appended in order.\<close>

fun emit_fake_guards ::
  "lopcodes \<Rightarrow> int list \<Rightarrow> CFFContext \<Rightarrow> 32 word \<Rightarrow> int list
     \<Rightarrow> (CFFContext \<times> int list) option" where
  "emit_fake_guards H [] ctx fake_seed pcs = Some (ctx, pcs)"
| "emit_fake_guards H (fid # fids) ctx fake_seed pcs =
     (case emitFakeFunction H ctx fid fake_seed of
        None \<Rightarrow> None
      | Some (n, ctx1, entry_jmp_pc) \<Rightarrow>
          emit_fake_guards H fids ctx1 fake_seed (pcs @ [entry_jmp_pc]))"

text \<open>\<open>for (pc = from; pc < to; pc++) emitInstruction(ctx, f->code[pc])\<close>\<close>

fun copy_insts :: "CFFContext \<Rightarrow> int list \<Rightarrow> CFFContext option" where
  "copy_insts ctx [] = Some ctx"
| "copy_insts ctx (pc # pcs) =
     (case read_at (code (f ctx)) pc of
        None \<Rightarrow> None
      | Some inst \<Rightarrow>
          (case emit ctx inst of None \<Rightarrow> None | Some ctx1 \<Rightarrow> copy_insts ctx1 pcs))"

text \<open>The state id of block \<open>idx\<close> if \<open>idx >= 0\<close>, else 0.\<close>

definition state_or_zero :: "CFFContext \<Rightarrow> int \<Rightarrow> int option" where
  "state_or_zero ctx idx =
     (if idx \<ge> 0 then map_option state_id (read_at (blocks ctx) idx) else Some 0)"

text \<open>
  One relocated block: the analysis of its last instructions (\<open>last_op\<close>,
  \<open>has_cond_test\<close>, \<open>cond_test_pc\<close>), the copied body and the epilogue.
\<close>

definition block_tail :: "CFFContext \<Rightarrow> BasicBlock \<Rightarrow> (OpCode \<times> bool \<times> int) option" where
  "block_tail ctx block =
     (let last_pc = end_pc block - 1 in
      if last_pc \<ge> start_pc block then
        (case read_at (code (f ctx)) last_pc of
           None \<Rightarrow> None
         | Some li \<Rightarrow>
             (let last_op = GET_OPCODE li in
              if last_op = OP_JMP \<and> last_pc > start_pc block then
                (case read_at (code (f ctx)) (last_pc - 1) of
                   None \<Rightarrow> None
                 | Some pi \<Rightarrow>
                     if isConditionalTest (GET_OPCODE pi) then Some (last_op, True, last_pc - 1)
                     else Some (last_op, False, -1))
              else Some (last_op, False, -1)))
      else Some (OP_NOP, False, -1))"

definition emit_cond_epilogue ::
  "lopcodes \<Rightarrow> CFFContext \<Rightarrow> BasicBlock \<Rightarrow> int \<Rightarrow> CFFContext option" where
  "emit_cond_epilogue H ctx block cond_test_pc =
     (let last_pc = end_pc block - 1 in
      case read_at (code (f ctx)) cond_test_pc of
        None \<Rightarrow> None
      | Some cond_inst \<Rightarrow>
          (case emit ctx cond_inst of
             None \<Rightarrow> None
           | Some ctx1 \<Rightarrow>
               (case read_at (code (f ctx1)) last_pc of
                  None \<Rightarrow> None
                | Some orig_jmp \<Rightarrow>
                    (let orig_jmp_target = luaO_getJumpTarget H orig_jmp last_pc;
                         else_block = findBlockStartingAt ctx1 orig_jmp_target;
                         then_block = findBlockStartingAt ctx1 (last_pc + 1);
                         then_block = (if then_block < 0 then fall_through block else then_block)
                     in case state_or_zero ctx1 then_block of
                          None \<Rightarrow> None
                        | Some then_state0 \<Rightarrow>
                            (case state_or_zero ctx1 else_block of
                               None \<Rightarrow> None
                             | Some else_state0 \<Rightarrow>
                                 (let then_state = encoded_state ctx1 (seed ctx1) then_state0;
                                      else_state = encoded_state ctx1 (seed ctx1) else_state0
                                  in case emit_all ctx1
                                            [CREATE_sJ OP_JMP (2 + OFFSET_sJ H) 0,
                                             CREATE_ABx OP_LOADI (state_reg ctx1)
                                               (then_state + OFFSET_sBx H)] of
                                       None \<Rightarrow> None
                                     | Some ctx2 \<Rightarrow>
                                         (let jmp_offset1 =
                                                dispatcher_pc ctx2 - new_code_size ctx2 - 1
                                          in case emit_all ctx2
                                                    [CREATE_sJ OP_JMP (jmp_offset1 + OFFSET_sJ H) 0,
                                                     CREATE_ABx OP_LOADI (state_reg ctx2)
                                                       (else_state + OFFSET_sBx H)] of
                                               None \<Rightarrow> None
                                             | Some ctx3 \<Rightarrow>
                                                 (let jmp_offset2 =
                                                        dispatcher_pc ctx3 - new_code_size ctx3 - 1
                                                  in emit ctx3
                                                       (CREATE_sJ OP_JMP
                                                          (jmp_offset2 + OFFSET_sJ H) 0)))))))))"

definition emit_plain_epilogue ::
  "lopcodes \<Rightarrow> CFFContext \<Rightarrow> BasicBlock \<Rightarrow> CFFContext option" where
  "emit_plain_epilogue H ctx block =
     (case (if original_target block \<ge> 0
            then map_option state_id (read_at (blocks ctx) (original_target block))
            else if fall_through block \<ge> 0
            then map_option state_id (read_at (blocks ctx) (fall_through block))
            else Some (-1)) of
        None \<Rightarrow> None
      | Some next_state \<Rightarrow>
          if next_state \<ge> 0 then
            (let next_state = encoded_state ctx (seed ctx) next_state in
             case emit ctx (CREATE_ABx OP_LOADI (state_reg ctx) (next_state + OFFSET_sBx H)) of
               None \<Rightarrow> None
             | Some ctx1 \<Rightarrow>
                 (let jmp_offset = dispatcher_pc ctx1 - new_code_size ctx1 - 1
                  in emit ctx1 (CREATE_sJ OP_JMP (jmp_offset + OFFSET_sJ H) 0)))
          else Some ctx)"

definition emit_block :: "lopcodes \<Rightarrow> CFFContext \<Rightarrow> BasicBlock \<Rightarrow> CFFContext option" where
  "emit_block H ctx block =
     (case block_tail ctx block of
        None \<Rightarrow> None
      | Some (last_op, has_cond_test, cond_test_pc) \<Rightarrow>
          (let copy_end = (if has_cond_test then cond_test_pc
                           else if last_op = OP_JMP then end_pc block - 1
                           else end_pc block)
           in case copy_insts ctx [start_pc block..copy_end - 1] of
                None \<Rightarrow> None
              | Some ctx1 \<Rightarrow>
                  if is_exit block \<noteq> 0 then
                    (if copy_end < end_pc block
                     then copy_insts ctx1 [copy_end..end_pc block - 1]
                     else Some ctx1)
                  else if has_cond_test then emit_cond_epilogue H ctx1 block cond_test_pc
                  else emit_plain_epilogue H ctx1 block))"

text \<open>All real blocks in order; \<open>all_block_starts[i]\<close> is the new start of block \<open>i\<close>.\<close>

fun emit_blocks ::
  "lopcodes \<Rightarrow> nat list \<Rightarrow> CFFContext \<Rightarrow> int list \<Rightarrow> (CFFContext \<times> int list) option" where
  "emit_blocks H [] ctx starts = Some (ctx, starts)"
| "emit_blocks H (i # is) ctx starts =
     (let starts1 = starts[i := new_code_size ctx] in
      case emit_block H ctx (blocks ctx ! i) of
        None \<Rightarrow> None
      | Some ctx1 \<Rightarrow> emit_blocks H is ctx1 starts1)"

text \<open>The backpatch pass: \<open>for (i = 0; i < ctx->num_blocks; i++)\<close>.\<close>

fun patch_jumps ::
  "lopcodes \<Rightarrow> nat list \<Rightarrow> int list \<Rightarrow> int list \<Rightarrow> CFFContext \<Rightarrow> CFFContext option" where
  "patch_jumps H [] jmp_pcs starts ctx = Some ctx"
| "patch_jumps H (i # is) jmp_pcs starts ctx =
     (let jmp_pc = jmp_pcs ! i;
          target_pc = starts ! i;
          offset = target_pc - jmp_pc - 1
      in case patch_sJ H ctx jmp_pc offset of
           None \<Rightarrow> None
         | Some ctx1 \<Rightarrow> patch_jumps H is jmp_pcs starts ctx1)"

fun emit_fake_functions ::
  "lopcodes \<Rightarrow> (int \<times> int) list \<Rightarrow> CFFContext \<Rightarrow> 32 word \<Rightarrow> CFFContext option" where
  "emit_fake_functions H [] ctx fake_seed = Some ctx"
| "emit_fake_functions H ((fid, entry_jmp_pc) # rest) ctx fake_seed =
     (case emitFakeFunctionBlocks H ctx fid fake_seed entry_jmp_pc of
        None \<Rightarrow> None
      | Some (ctx1, fake_seed1) \<Rightarrow> emit_fake_functions H rest ctx1 fake_seed1)"

text \<open>
  \<open>luaO_generateDispatcher\<close>. \<open>generateDispatcher_run\<close> is its body and also returns
  the two local arrays \<open>all_block_jmp_pcs\<close> and \<open>all_block_starts\<close> (both of
  \<open>total_blocks\<close> entries; an entry that is never written reads 0 in the model).
\<close>

definition generateDispatcher_run ::
  "lopcodes \<Rightarrow> CFFContext \<Rightarrow> (CFFContext \<times> int list \<times> int list) option" where
  "generateDispatcher_run H ctx0 =
     (let flags = obfuscate_flags ctx0;
          n = length (blocks ctx0);
          num_bogus_blocks =
            (if has_flag flags OBFUSCATE_BOGUS_BLOCKS then int n * BOGUS_BLOCK_RATIO else 0);
          total_blocks = int n + num_bogus_blocks;
          entry_state = encoded_state ctx0 (seed ctx0) (entry_state_of (blocks ctx0))
      in do {
        ctx \<leftarrow> emit ctx0 (CREATE_ABx OP_LOADI (state_reg ctx0) (entry_state + OFFSET_sBx H));
        ctx \<leftarrow> (if has_flag flags OBFUSCATE_FUNC_INTERLEAVE
                then emit (ctx\<lparr>num_fake_funcs := NUM_FAKE_FUNCTIONS\<rparr>)
                       (CREATE_ABx OP_LOADI (func_id_reg ctx) (0 + OFFSET_sBx H))
                else Some ctx);
        ctx \<leftarrow> Some (ctx\<lparr>dispatcher_pc := new_code_size ctx\<rparr>);
        ctx \<leftarrow> alloc ctx (sizeof_int * word_of_int total_blocks);
        ctx \<leftarrow> (if num_bogus_blocks > 0
                then alloc ctx (sizeof_int * word_of_int num_bogus_blocks) else Some ctx);
        (ctx, jmp_pcs) \<leftarrow>
          emit_real_compares H [0..<n] ctx 0 (seed ctx XOR 0xDEADBEEF)
            (replicate (nat total_blocks) 0);
        (ctx, jmp_pcs) \<leftarrow>
          (if num_bogus_blocks > 0
           then emit_bogus_compares H [0..<nat num_bogus_blocks] ctx jmp_pcs
           else Some (ctx, jmp_pcs));
        (ctx, fake_func_jmp_pcs) \<leftarrow>
          (if has_flag flags OBFUSCATE_FUNC_INTERLEAVE
           then do {
             ctx \<leftarrow> alloc ctx (sizeof_int * word_of_int (num_fake_funcs ctx));
             emit_fake_guards H [0..num_fake_funcs ctx - 1] ctx (seed ctx XOR 0xFEEDFACE) []
           }
           else Some (ctx, []));
        ctx \<leftarrow> emit ctx (CREATE_sJ OP_JMP
                           (dispatcher_pc ctx - new_code_size ctx - 1 + OFFSET_sJ H) 0);
        ctx \<leftarrow> alloc ctx (sizeof_int * word_of_int total_blocks);
        (ctx, starts) \<leftarrow> emit_blocks H [0..<n] ctx (replicate (nat total_blocks) 0);
        ctx \<leftarrow> patch_jumps H [0..<n] jmp_pcs starts ctx;
        ctx \<leftarrow> (if has_flag flags OBFUSCATE_FUNC_INTERLEAVE
                then emit_fake_functions H (zip [0..num_fake_funcs ctx - 1] fake_func_jmp_pcs)
                       ctx (seed ctx XOR 0xFEEDFACE)
                else Some ctx);
        Some (ctx, jmp_pcs, starts)
      })"

definition luaO_generateDispatcher :: "lopcodes \<Rightarrow> CFFContext \<Rightarrow> CFFContext option" where
  "luaO_generateDispatcher H ctx =
     (if num_blocks ctx = 0 then Some ctx
      else map_option fst (generateDispatcher_run H ctx))"

subsection \<open>The nested dispatcher\<close>

definition NESTED_GROUP_SIZE :: int where "NESTED_GROUP_SIZE = 4"

definition partitionBlocksIntoGroups :: "CFFContext \<Rightarrow> CFFContext option" where
  "partitionBlocksIntoGroups ctx =
     (if num_blocks ctx = 0 then Some ctx
      else
        (let ng = (num_blocks ctx + NESTED_GROUP_SIZE - 1) sdiv NESTED_GROUP_SIZE;
             ng = (if ng < 2 then 2 else ng);
             ctx1 = ctx\<lparr>num_groups := ng\<rparr>
         in case alloc ctx1 (sizeof_int * word_of_int (num_groups ctx1 + 1)) of
              None \<Rightarrow> None
            | Some ctx2 \<Rightarrow>
                (let blocks_per_group = (num_blocks ctx2 + ng - 1) sdiv ng;
                     starts = map (\<lambda>g. if g * blocks_per_group > num_blocks ctx2
                                         then num_blocks ctx2 else g * blocks_per_group)
                                [0..ng - 1]
                 in Some (ctx2\<lparr>group_starts := starts @ [num_blocks ctx2]\<rparr>))))"

fun findBlockGroup_from :: "int list \<Rightarrow> int list \<Rightarrow> int \<Rightarrow> int" where
  "findBlockGroup_from gs [] block_idx = 0"
| "findBlockGroup_from gs (g # rest) block_idx =
     (if block_idx \<ge> gs ! nat g \<and> block_idx < gs ! nat (g + 1) then g
      else findBlockGroup_from gs rest block_idx)"

definition findBlockGroup :: "CFFContext \<Rightarrow> int \<Rightarrow> int" where
  "findBlockGroup ctx block_idx =
     findBlockGroup_from (group_starts ctx) [0..num_groups ctx - 1] block_idx"

text \<open>The first block with \<open>is_entry\<close> set, 0 if there is none.\<close>

fun entry_block_from :: "BasicBlock list \<Rightarrow> int \<Rightarrow> int" where
  "entry_block_from [] i = 0"
| "entry_block_from (b # bs) i = (if is_entry b \<noteq> 0 then i else entry_block_from bs (i + 1))"

text \<open>The outer ladder; \<open>group_jmp_pcs[g]\<close> is appended in order.\<close>

fun emit_outer_compares ::
  "lopcodes \<Rightarrow> int list \<Rightarrow> CFFContext \<Rightarrow> int list \<Rightarrow> (CFFContext \<times> int list) option" where
  "emit_outer_compares H [] ctx pcs = Some (ctx, pcs)"
| "emit_outer_compares H (g # gs) ctx pcs =
     (let outer_state = encoded_state ctx (seed ctx) g in
      case emit ctx (CREATE_ABCk OP_EQI (outer_state_reg ctx) (int2sC H outer_state) 0 1) of
        None \<Rightarrow> None
      | Some ctx1 \<Rightarrow>
          (case emitInstruction ctx1 (CREATE_sJ OP_JMP 0 0) of
             None \<Rightarrow> None
           | Some (jmp_pc, ctx2) \<Rightarrow> emit_outer_compares H gs ctx2 (pcs @ [jmp_pc])))"

text \<open>The ladder of one group over the blocks \<open>group_start .. group_end - 1\<close>.\<close>

fun emit_inner_compares ::
  "lopcodes \<Rightarrow> int list \<Rightarrow> CFFContext \<Rightarrow> int list \<Rightarrow> (CFFContext \<times> int list) option" where
  "emit_inner_compares H [] ctx block_jmp_pcs = Some (ctx, block_jmp_pcs)"
| "emit_inner_compares H (i # is) ctx block_jmp_pcs =
     (case read_at (blocks ctx) i of
        None \<Rightarrow> None
      | Some b \<Rightarrow>
          (let inner_state = encoded_state ctx (seed ctx XOR 0x12345678) (state_id b) in
           case emit ctx (CREATE_ABCk OP_EQI (state_reg ctx) (int2sC H inner_state) 0 1) of
             None \<Rightarrow> None
           | Some ctx1 \<Rightarrow>
               (case emitInstruction ctx1 (CREATE_sJ OP_JMP 0 0) of
                  None \<Rightarrow> None
                | Some (jmp_pc, ctx2) \<Rightarrow>
                    emit_inner_compares H is ctx2 (block_jmp_pcs[nat i := jmp_pc]))))"

fun emit_inner_dispatchers ::
  "lopcodes \<Rightarrow> int list \<Rightarrow> int list \<Rightarrow> CFFContext \<Rightarrow> int list
     \<Rightarrow> (CFFContext \<times> int list) option" where
  "emit_inner_dispatchers H [] group_jmp_pcs ctx block_jmp_pcs = Some (ctx, block_jmp_pcs)"
| "emit_inner_dispatchers H (g # gs) group_jmp_pcs ctx block_jmp_pcs =
     (let inner_dispatcher_pc = new_code_size ctx in
      case read_at group_jmp_pcs g of
        None \<Rightarrow> None
      | Some group_jmp_pc \<Rightarrow>
          (case patch_sJ H ctx group_jmp_pc (inner_dispatcher_pc - group_jmp_pc - 1) of
             None \<Rightarrow> None
           | Some ctx1 \<Rightarrow>
               (case read_at (group_starts ctx1) g of
                  None \<Rightarrow> None
                | Some group_start \<Rightarrow>
                    (case read_at (group_starts ctx1) (g + 1) of
                       None \<Rightarrow> None
                     | Some group_end \<Rightarrow>
                         (case emit_inner_compares H [group_start..group_end - 1] ctx1
                                 block_jmp_pcs of
                            None \<Rightarrow> None
                          | Some (ctx2, block_jmp_pcs1) \<Rightarrow>
                              (let inner_default_jmp_pc = new_code_size ctx2 in
                               case emit ctx2
                                      (CREATE_sJ OP_JMP
                                         (outer_dispatcher_pc ctx2 - inner_default_jmp_pc - 1
                                            + OFFSET_sJ H) 0) of
                                 None \<Rightarrow> None
                               | Some ctx3 \<Rightarrow>
                                   emit_inner_dispatchers H gs group_jmp_pcs ctx3
                                     block_jmp_pcs1))))))"

text \<open>The group and the inner state of block \<open>idx\<close> if \<open>idx >= 0\<close>, else 0 and 0.\<close>

definition group_and_state :: "CFFContext \<Rightarrow> int \<Rightarrow> (int \<times> int) option" where
  "group_and_state ctx idx =
     (if idx \<ge> 0
      then map_option (\<lambda>b. (findBlockGroup ctx idx, state_id b)) (read_at (blocks ctx) idx)
      else Some (0, 0))"

text \<open>\<open>LOADI outer; LOADI inner; JMP outer_dispatcher\<close>\<close>

definition emit_nested_transition ::
  "lopcodes \<Rightarrow> CFFContext \<Rightarrow> int \<Rightarrow> int \<Rightarrow> CFFContext option" where
  "emit_nested_transition H ctx grp inner =
     (let grp = encoded_state ctx (seed ctx) grp;
          inner = encoded_state ctx (seed ctx XOR 0x12345678) inner
      in case emit_all ctx
                [CREATE_ABx OP_LOADI (outer_state_reg ctx) (grp + OFFSET_sBx H),
                 CREATE_ABx OP_LOADI (state_reg ctx) (inner + OFFSET_sBx H)] of
           None \<Rightarrow> None
         | Some ctx1 \<Rightarrow>
             (let jmp_offset = outer_dispatcher_pc ctx1 - new_code_size ctx1 - 1
              in emit ctx1 (CREATE_sJ OP_JMP (jmp_offset + OFFSET_sJ H) 0)))"

definition emit_nested_cond_epilogue ::
  "lopcodes \<Rightarrow> CFFContext \<Rightarrow> BasicBlock \<Rightarrow> int \<Rightarrow> CFFContext option" where
  "emit_nested_cond_epilogue H ctx block cond_test_pc =
     (let last_pc = end_pc block - 1 in
      case read_at (code (f ctx)) cond_test_pc of
        None \<Rightarrow> None
      | Some cond_inst \<Rightarrow>
          (case emit ctx cond_inst of
             None \<Rightarrow> None
           | Some ctx1 \<Rightarrow>
               (case read_at (code (f ctx1)) last_pc of
                  None \<Rightarrow> None
                | Some orig_jmp \<Rightarrow>
                    (let orig_jmp_target = luaO_getJumpTarget H orig_jmp last_pc;
                         else_block = findBlockStartingAt ctx1 orig_jmp_target;
                         then_block = findBlockStartingAt ctx1 (last_pc + 1);
                         then_block = (if then_block < 0 then fall_through block else then_block)
                     in case group_and_state ctx1 then_block of
                          None \<Rightarrow> None
                        | Some (then_group, then_inner) \<Rightarrow>
                            (case group_and_state ctx1 else_block of
                               None \<Rightarrow> None
                             | Some (else_group, else_inner) \<Rightarrow>
                                 (case emit ctx1 (CREATE_sJ OP_JMP (3 + OFFSET_sJ H) 0) of
                                    None \<Rightarrow> None
                                  | Some ctx2 \<Rightarrow>
                                      (case emit_nested_transition H ctx2 then_group then_inner of
                                         None \<Rightarrow> None
                                       | Some ctx3 \<Rightarrow>
                                           emit_nested_transition H ctx3 else_group
                                             else_inner)))))))"

definition emit_nested_plain_epilogue ::
  "lopcodes \<Rightarrow> CFFContext \<Rightarrow> BasicBlock \<Rightarrow> CFFContext option" where
  "emit_nested_plain_epilogue H ctx block =
     (let next_block = (if original_target block \<ge> 0 then original_target block
                        else fall_through block)
      in if next_block \<ge> 0 then
           (case read_at (blocks ctx) next_block of
              None \<Rightarrow> None
            | Some b \<Rightarrow>
                emit_nested_transition H ctx (findBlockGroup ctx next_block) (state_id b))
         else Some ctx)"

definition emit_nested_block ::
  "lopcodes \<Rightarrow> CFFContext \<Rightarrow> BasicBlock \<Rightarrow> CFFContext option" where
  "emit_nested_block H ctx block =
     (case block_tail ctx block of
        None \<Rightarrow> None
      | Some (last_op, has_cond_test, cond_test_pc) \<Rightarrow>
          (let copy_end = (if has_cond_test then cond_test_pc
                           else if last_op = OP_JMP then end_pc block - 1
                           else end_pc block)
           in case copy_insts ctx [start_pc block..copy_end - 1] of
                None \<Rightarrow> None
              | Some ctx1 \<Rightarrow>
                  if is_exit block \<noteq> 0 then
                    (if copy_end < end_pc block
                     then copy_insts ctx1 [copy_end..end_pc block - 1]
                     else Some ctx1)
                  else if has_cond_test then emit_nested_cond_epilogue H ctx1 block cond_test_pc
                  else emit_nested_plain_epilogue H ctx1 block))"

text \<open>Each block is patched into its inner ladder just before it is emitted.\<close>

fun emit_nested_blocks ::
  "lopcodes \<Rightarrow> nat list \<Rightarrow> int list \<Rightarrow> CFFContext \<Rightarrow> CFFContext option" where
  "emit_nested_blocks H [] block_jmp_pcs ctx = Some ctx"
| "emit_nested_blocks H (i # is) block_jmp_pcs ctx =
     (let block_start = new_code_size ctx;
          jmp_pc = block_jmp_pcs ! i
      in case patch_sJ H ctx jmp_pc (block_start - jmp_pc - 1) of
           None \<Rightarrow> None
         | Some ctx1 \<Rightarrow>
             (case emit_nested_block H ctx1 (blocks ctx1 ! i) of
                None \<Rightarrow> None
              | Some ctx2 \<Rightarrow> emit_nested_blocks H is block_jmp_pcs ctx2))"

definition luaO_generateNestedDispatcher :: "lopcodes \<Rightarrow> CFFContext \<Rightarrow> CFFContext option" where
  "luaO_generateNestedDispatcher H ctx0 =
     (if num_blocks ctx0 = 0 then Some ctx0
      else do {
        ctx \<leftarrow> partitionBlocksIntoGroups ctx0;
        let entry_block = entry_block_from (blocks ctx) 0;
        let entry_group = findBlockGroup ctx entry_block;
        eb \<leftarrow> read_at (blocks ctx) entry_block;
        let initial_outer = encoded_state ctx (seed ctx) entry_group;
        let initial_inner = encoded_state ctx (seed ctx XOR 0x12345678) (state_id eb);
        ctx \<leftarrow> emit ctx (CREATE_ABx OP_LOADI (outer_state_reg ctx) (initial_outer + OFFSET_sBx H));
        ctx \<leftarrow> emit ctx (CREATE_ABx OP_LOADI (state_reg ctx) (initial_inner + OFFSET_sBx H));
        ctx \<leftarrow> Some (ctx\<lparr>outer_dispatcher_pc := new_code_size ctx\<rparr>);
        ctx \<leftarrow> alloc ctx (sizeof_int * word_of_int (num_groups ctx));
        ctx \<leftarrow> alloc ctx (sizeof_int * word_of_int (num_groups ctx));
        (ctx, group_jmp_pcs) \<leftarrow> emit_outer_compares H [0..num_groups ctx - 1] ctx [];
        ctx \<leftarrow> emit ctx (CREATE_sJ OP_JMP
                           (outer_dispatcher_pc ctx - new_code_size ctx - 1 + OFFSET_sJ H) 0);
        ctx \<leftarrow> alloc ctx (sizeof_int * word_of_int (num_blocks ctx));
        ctx \<leftarrow> alloc ctx (sizeof_int * word_of_int (num_blocks ctx));
        (ctx, block_jmp_pcs) \<leftarrow>
          emit_inner_dispatchers H [0..num_groups ctx - 1] group_jmp_pcs ctx
            (replicate (length (blocks ctx)) 0);
        emit_nested_blocks H [0..<length (blocks ctx)] block_jmp_pcs ctx
      })"

subsection \<open>Metadata serialization\<close>

text \<open>
  The metadata blob is written and read in \<open>int\<close>-sized cells only (\<open>*(int *)ptr\<close>,
  \<open>*(unsigned int *)ptr\<close>, and a \<open>BasicBlock\<close> is eight \<open>int\<close>s), so the buffer is a
  list of 32-bit cells and no byte order enters. Sizes stay in bytes, as \<open>size_t\<close>:
  \<open>sizeof(int) = 4\<close>, \<open>sizeof(BasicBlock) = 32\<close>, and \<open>size_t\<close> has 64 bits. A caller
  passes a buffer that really holds \<open>size\<close> bytes. A \<open>NULL\<close> buffer is \<open>None\<close>.
\<close>

record CFFMetadata =
  enabled :: int
  md_num_blocks :: int
  md_state_reg :: int
  md_dispatcher_pc :: int
  block_mapping :: "int list option"
  original_size :: int
  md_seed :: "32 word"

definition block_cells :: "BasicBlock \<Rightarrow> 32 word list" where
  "block_cells b =
     map word_of_int [start_pc b, end_pc b, state_id b, original_target b,
                      fall_through b, cond_target b, is_entry b, is_exit b]"

text \<open>
  \<open>luaO_serializeMetadata\<close> returns the status, the buffer and the value left in
  \<open>*size\<close>. The written cells replace the front of the buffer.
\<close>

definition luaO_serializeMetadata ::
  "CFFContext \<Rightarrow> 32 word list option \<Rightarrow> nat \<Rightarrow> int \<times> 32 word list option \<times> nat" where
  "luaO_serializeMetadata ctx buffer sz =
     (let needed = 4 * 4 + 4 + 32 * length (blocks ctx) in
      case buffer of
        None \<Rightarrow> (0, None, needed)
      | Some buf \<Rightarrow>
          if sz < needed then (-1, Some buf, needed)
          else
            (0,
             Some ([word_of_int CFF_MAGIC, word_of_int CFF_VERSION,
                    word_of_int (num_blocks ctx), word_of_int (state_reg ctx), seed ctx]
                   @ concat (map block_cells (blocks ctx))
                   @ drop (needed div 4) buf),
             needed))"

text \<open>
  \<open>luaO_deserializeMetadata\<close> returns the status and the metadata structure as the
  call leaves it. The block count, the state register and the seed are stored into
  the structure before the size of the buffer is compared with the size the header
  implies; \<open>sizeof(BasicBlock) * metadata->num_blocks\<close> is computed in \<open>size_t\<close>.
  The block mapping is a request for \<open>sizeof(int) * metadata->num_blocks\<close> bytes, and
  the call fails when the request yields \<open>NULL\<close>.
\<close>

definition luaO_deserializeMetadata ::
  "lua_State \<Rightarrow> 32 word list \<Rightarrow> nat \<Rightarrow> CFFMetadata \<Rightarrow> int \<times> CFFMetadata" where
  "luaO_deserializeMetadata L0 buffer sz metadata =
     (if sz < 4 * 4 + 4 then (-1, metadata)
      else
        (let magic = sint (buffer ! 0) in
         if magic \<noteq> CFF_MAGIC then (-1, metadata)
         else
           (let version = sint (buffer ! 1) in
            if version \<noteq> CFF_VERSION then (-1, metadata)
            else
              (let metadata = metadata\<lparr>md_num_blocks := sint (buffer ! 2)\<rparr>;
                   metadata = metadata\<lparr>md_state_reg := sint (buffer ! 3)\<rparr>;
                   metadata = metadata\<lparr>md_seed := buffer ! 4\<rparr>;
                   expected_size =
                     unat ((4 * 4 + 4 :: 64 word) + 32 * word_of_int (md_num_blocks metadata))
               in if sz < expected_size then (-1, metadata)
                  else
                    (case luaM_malloc L0 (sizeof_int * word_of_int (md_num_blocks metadata)) of
                       None \<Rightarrow> (-1, metadata\<lparr>block_mapping := None\<rparr>)
                     | Some L1 \<Rightarrow>
                         (0, metadata\<lparr>block_mapping :=
                                         Some (map (\<lambda>i. sint (buffer ! (5 + 8 * i)))
                                                 [0..<nat (md_num_blocks metadata)]),
                                       enabled := 1\<rparr>))))))"

definition luaO_freeMetadata :: "CFFMetadata \<Rightarrow> CFFMetadata" where
  "luaO_freeMetadata metadata =
     (let metadata = (if block_mapping metadata \<noteq> None
                      then metadata\<lparr>block_mapping := None\<rparr> else metadata)
      in metadata\<lparr>enabled := 0\<rparr>)"

subsection \<open>VM protection\<close>

definition VM_OP_NOP :: int where "VM_OP_NOP = 0"
definition VM_OP_HALT :: int where "VM_OP_HALT = 46"
definition VM_OP_COUNT :: int where "VM_OP_COUNT = 47"
definition VM_CODE_INITIAL_CAPACITY :: int where "VM_CODE_INITIAL_CAPACITY = 128"

text \<open>\<open>VM_MAKE_INST(op, a, b, c, flags)\<close>: each \<open>int\<close> is converted to \<open>uint64_t\<close>.\<close>

definition VM_MAKE_INST :: "int \<Rightarrow> int \<Rightarrow> int \<Rightarrow> int \<Rightarrow> int \<Rightarrow> 64 word" where
  "VM_MAKE_INST op a b c flags =
     push_bit 56 (word_of_int op) OR push_bit 40 (word_of_int a)
       OR push_bit 24 (word_of_int b) OR push_bit 8 (word_of_int c) OR word_of_int flags"

record VMProtectContext =
  vm_L :: lua_State
  vm_f :: Proto
  vm_code :: "64 word list"
  vm_code_capacity :: int
  encrypt_key :: "64 word"
  opcode_map :: "int list"
  reverse_map :: "int list"
  vm_seed :: "32 word"

abbreviation vm_code_size :: "VMProtectContext \<Rightarrow> int" where
  "vm_code_size ctx \<equiv> int (length (vm_code ctx))"

text \<open>\<open>opcode_map[i] = r % VM_OP_COUNT\<close> for \<open>i = 0, 1, ...\<close>, with \<open>NEXT_RAND(r)\<close> before each.\<close>

fun random_opcode_map :: "nat \<Rightarrow> 32 word \<Rightarrow> int list" where
  "random_opcode_map 0 r = []"
| "random_opcode_map (Suc n) r =
     (let r1 = NEXT_RAND r in sint (r1 mod word_of_int VM_OP_COUNT) # random_opcode_map n r1)"

text \<open>\<open>reverse_map[vm_op] = i\<close> for the entries \<open>i, i + 1, ...\<close> of the opcode map.\<close>

fun fill_reverse_map :: "int list \<Rightarrow> int \<Rightarrow> int list \<Rightarrow> int list" where
  "fill_reverse_map [] i rev_map = rev_map"
| "fill_reverse_map (vm_op # rest) i rev_map =
     fill_reverse_map rest (i + 1)
       (if vm_op \<ge> 0 \<and> vm_op < VM_OP_COUNT then rev_map[nat vm_op := i] else rev_map)"

definition luaO_initVMContext ::
  "lopcodes \<Rightarrow> lua_State \<Rightarrow> Proto \<Rightarrow> 32 word \<Rightarrow> VMProtectContext option" where
  "luaO_initVMContext H L0 p sd =
     (case luaM_malloc L0 sizeof_VMProtectContext of
        None \<Rightarrow> None
      | Some L1 \<Rightarrow>
          (let r = NEXT_RAND sd;
               key = push_bit 32 (ucast r :: 64 word);
               r = NEXT_RAND r;
               key = key OR ucast r
           in case luaM_malloc L1 (sizeof_int * word_of_nat (NUM_OPCODES H)) of
                None \<Rightarrow> None
              | Some L2 \<Rightarrow>
                  (case luaM_malloc L2 (sizeof_int * word_of_int VM_OP_COUNT) of
                     None \<Rightarrow> None
                   | Some L3 \<Rightarrow>
                       (let omap = random_opcode_map (NUM_OPCODES H) (sd XOR 0xDEADBEEF);
                            rmap = fill_reverse_map omap 0 (replicate (nat VM_OP_COUNT) (-1))
                        in Some \<lparr> vm_L = L3, vm_f = p, vm_code = [], vm_code_capacity = 0,
                                   encrypt_key = key, opcode_map = omap, reverse_map = rmap,
                                   vm_seed = sd \<rparr>))))"

definition ensureVMCodeCapacity :: "VMProtectContext \<Rightarrow> int \<Rightarrow> VMProtectContext option" where
  "ensureVMCodeCapacity ctx needed =
     (let required = vm_code_size ctx + needed in
      if required \<le> vm_code_capacity ctx then Some ctx
      else
        (case grow_capacity (if vm_code_capacity ctx = 0 then VM_CODE_INITIAL_CAPACITY
                             else vm_code_capacity ctx) required of
           None \<Rightarrow> None
         | Some new_capacity \<Rightarrow>
             (case (if vm_code_capacity ctx = 0
                    then luaM_malloc (vm_L ctx) (sizeof_VMInstruction * word_of_int new_capacity)
                    else luaM_realloc (vm_L ctx)
                           (sizeof_VMInstruction * word_of_int new_capacity)) of
                None \<Rightarrow> None
              | Some L1 \<Rightarrow> Some (ctx\<lparr>vm_L := L1, vm_code_capacity := new_capacity\<rparr>))))"

definition emitVMInstruction ::
  "VMProtectContext \<Rightarrow> 64 word \<Rightarrow> (int \<times> VMProtectContext) option" where
  "emitVMInstruction ctx inst =
     (case ensureVMCodeCapacity ctx 1 of
        None \<Rightarrow> None
      | Some ctx1 \<Rightarrow> Some (vm_code_size ctx1, ctx1\<lparr>vm_code := vm_code ctx1 @ [inst]\<rparr>))"

text \<open>The position-dependent cipher.\<close>

text \<open>
  \<open>encryptVMInstruction\<close> and \<open>decryptVMInstruction\<close>. \<open>pc\<close> is a C \<open>int\<close>;
  \<open>(uint64_t)pc\<close> is \<open>word_of_int pc\<close>. The shifts take the amount as the code
  computes it, \<open>pc % 64\<close> and \<open>64 - pc % 64\<close>; a shift of a 64-bit value by 64
  yields 0 here, so a rotation by 0 is the identity.
\<close>

definition encryptVMInstruction :: "64 word \<Rightarrow> 64 word \<Rightarrow> int \<Rightarrow> 64 word" where
  "encryptVMInstruction inst key pc =
     (let encrypted = inst XOR key;
          rotate_amount = pc smod 64;
          encrypted = push_bit (nat rotate_amount) encrypted
                        OR drop_bit (nat (64 - rotate_amount)) encrypted;
          modified_key = key XOR (word_of_int pc * 0x9E3779B97F4A7C15)
      in encrypted XOR modified_key)"

definition decryptVMInstruction :: "64 word \<Rightarrow> 64 word \<Rightarrow> int \<Rightarrow> 64 word" where
  "decryptVMInstruction inst key pc =
     (let modified_key = key XOR (word_of_int pc * 0x9E3779B97F4A7C15);
          decrypted = inst XOR modified_key;
          rotate_amount = pc smod 64;
          decrypted = drop_bit (nat rotate_amount) decrypted
                        OR push_bit (nat (64 - rotate_amount)) decrypted
      in decrypted XOR key)"

text \<open>
  \<open>convertLuaInstToVM\<close>. \<open>ctx->opcode_map[lua_op]\<close> is a read of an array of
  \<open>NUM_OPCODES\<close> entries.
\<close>

definition convertLuaInstToVM ::
  "lopcodes \<Rightarrow> VMProtectContext \<Rightarrow> Instruction \<Rightarrow> int \<Rightarrow> VMProtectContext option" where
  "convertLuaInstToVM H ctx inst pc =
     (let lua_op = GET_OPCODE inst in
      case read_at (opcode_map ctx) (int lua_op) of
        None \<Rightarrow> None
      | Some vm_op0 \<Rightarrow>
          (let vm_op = (if vm_op0 < 0 then VM_OP_NOP else vm_op0);
               a0 = GETARG_A inst;
               mode = getOpMode H lua_op;
               (a, b, c, flags) =
                 (case mode of
                    iABC \<Rightarrow> (a0, GETARG_B inst, GETARG_C inst, GETARG_k inst)
                  | iABx \<Rightarrow> (a0, GETARG_Bx inst, 0, 0)
                  | iAsBx \<Rightarrow> (a0, GETARG_sBx H inst, 0, 0)
                  | iAx \<Rightarrow> (GETARG_Ax inst, 0, 0, 0)
                  | isJ \<Rightarrow> (GETARG_sJ H inst, 0, 0, 0));
               vm_inst = VM_MAKE_INST vm_op a b c flags;
               encrypted = encryptVMInstruction vm_inst (encrypt_key ctx) pc
           in map_option snd (emitVMInstruction ctx encrypted)))"

fun convert_insts ::
  "lopcodes \<Rightarrow> Instruction list \<Rightarrow> int \<Rightarrow> VMProtectContext \<Rightarrow> VMProtectContext option" where
  "convert_insts H [] pc ctx = Some ctx"
| "convert_insts H (inst # rest) pc ctx =
     (case convertLuaInstToVM H ctx inst pc of
        None \<Rightarrow> None
      | Some ctx1 \<Rightarrow> convert_insts H rest (pc + 1) ctx1)"

definition luaO_convertToVM :: "lopcodes \<Rightarrow> VMProtectContext \<Rightarrow> VMProtectContext option" where
  "luaO_convertToVM H ctx =
     (case convert_insts H (code (vm_f ctx)) 0 ctx of
        None \<Rightarrow> None
      | Some ctx1 \<Rightarrow>
          (let halt = VM_MAKE_INST VM_OP_HALT 0 0 0 0;
               encrypted_halt = encryptVMInstruction halt (encrypt_key ctx1) (sizecode (vm_f ctx1))
           in map_option snd (emitVMInstruction ctx1 encrypted_halt)))"

text \<open>
  \<open>luaO_registerVMCode\<close> inserts a table for the function at the head of the list and
  stores it in the function; it returns the table (\<open>None\<close> for \<open>NULL\<close>), the list
  and the function. It has no caller in lobfuscate.c.
\<close>

definition luaO_registerVMCode ::
  "lopcodes \<Rightarrow> lua_State \<Rightarrow> global_State \<Rightarrow> Proto \<Rightarrow> 64 word list \<Rightarrow> int \<Rightarrow> 64 word
     \<Rightarrow> int list \<Rightarrow> 32 word \<Rightarrow> VMCodeTable option \<times> global_State \<times> Proto" where
  "luaO_registerVMCode H L0 g p vcode vsize key rmap sd =
     (case luaM_malloc L0 sizeof_VMCodeTable of
        None \<Rightarrow> (None, g, p)
      | Some L1 \<Rightarrow>
          (case luaM_malloc L1 (sizeof_VMInstruction * word_of_int vsize) of
             None \<Rightarrow> (None, g, p)
           | Some L2 \<Rightarrow>
               (case luaM_malloc L2 (sizeof_int * word_of_nat (NUM_OPCODES H)) of
                  None \<Rightarrow> (None, g, p)
                | Some L3 \<Rightarrow>
                    (let vt = \<lparr> vt_proto = proto_addr p, vt_code = take (nat vsize) vcode,
                                  vt_size = vsize, vt_capacity = vsize, vt_encrypt_key = key,
                                  vt_reverse_map = take (NUM_OPCODES H) rmap, vt_seed = sd \<rparr>
                     in (Some vt, g\<lparr>vm_code_list := vt # vm_code_list g\<rparr>,
                         p\<lparr>vm_code_table := Some vt\<rparr>)))))"

text \<open>
  \<open>luaO_findVMCode\<close>: the table stored in the function, else the first table of the
  list whose \<open>proto\<close> is this function, which is then stored in the function.
\<close>

definition luaO_findVMCode :: "global_State \<Rightarrow> Proto \<Rightarrow> VMCodeTable option \<times> Proto" where
  "luaO_findVMCode g p =
     (if vm_code_table p \<noteq> None then (vm_code_table p, p)
      else
        (case find (\<lambda>vt. vt_proto vt = proto_addr p) (vm_code_list g) of
           None \<Rightarrow> (None, p)
         | Some vt \<Rightarrow> (Some vt, p\<lparr>vm_code_table := Some vt\<rparr>)))"

text \<open>
  \<open>luaO_vmProtect\<close> returns the status, the function and the list of VM code tables.
  The converted code lives in the context, which is released before the return.
\<close>

definition luaO_vmProtect ::
  "lopcodes \<Rightarrow> lua_State \<Rightarrow> global_State \<Rightarrow> Proto \<Rightarrow> 32 word
     \<Rightarrow> int \<times> Proto \<times> global_State" where
  "luaO_vmProtect H L0 g p sd =
     (if sizecode p < 4 then (0, p, g)
      else
        (case luaO_initVMContext H L0 p sd of
           None \<Rightarrow> (-1, p, g)
         | Some ctx \<Rightarrow>
             (case luaO_convertToVM H ctx of
                None \<Rightarrow> (-1, p, g)
              | Some ctx1 \<Rightarrow>
                  (0,
                   p\<lparr>difierline_mode := difierline_mode p OR OBFUSCATE_VM_PROTECT,
                     difierline_data :=
                       (difierline_data p AND 0xFFFFFFFF00000000)
                         OR (encrypt_key ctx1 AND 0xFFFFFFFF)\<rparr>,
                   g))))"

text \<open>\<open>luaO_executeVM\<close> returns 0 and does nothing else.\<close>

definition luaO_executeVM :: "Proto \<Rightarrow> int" where
  "luaO_executeVM p = 0"

subsection \<open>The public entry point\<close>

text \<open>
  \<open>luaO_flatten\<close> returns the status, the function as the call leaves it and the list
  of VM code tables. The log file, which the transform does not read, is left out.
  The replacement of \<open>f->code\<close> (\<open>luaM_freearray\<close>, \<open>luaM_newvectorchecked\<close>, whose
  result the code does not test) is an assignment.
\<close>

definition is_loop_opcode :: "OpCode \<Rightarrow> bool" where
  "is_loop_opcode op \<longleftrightarrow>
     op \<in> {OP_FORLOOP, OP_FORPREP, OP_TFORPREP, OP_TFORLOOP, OP_TFORCALL}"

definition max_state_reg_of :: "CFFContext \<Rightarrow> int \<Rightarrow> int" where
  "max_state_reg_of ctx flags =
     (let max_state_reg = state_reg ctx;
          max_state_reg =
            (if has_flag flags OBFUSCATE_NESTED_DISPATCHER \<and> outer_state_reg ctx > max_state_reg
             then outer_state_reg ctx else max_state_reg);
          max_state_reg =
            (if has_flag flags OBFUSCATE_OPAQUE_PREDICATES \<and> opaque_reg2 ctx > max_state_reg
             then opaque_reg2 ctx else max_state_reg);
          max_state_reg =
            (if has_flag flags OBFUSCATE_FUNC_INTERLEAVE \<and> func_id_reg ctx > max_state_reg
             then func_id_reg ctx else max_state_reg)
      in max_state_reg)"

definition flattened_mode :: "int \<Rightarrow> int \<Rightarrow> int" where
  "flattened_mode mode flags =
     (let mode = mode OR OBFUSCATE_CFF;
          mode = (if has_flag flags OBFUSCATE_NESTED_DISPATCHER
                  then mode OR OBFUSCATE_NESTED_DISPATCHER else mode);
          mode = (if has_flag flags OBFUSCATE_OPAQUE_PREDICATES
                  then mode OR OBFUSCATE_OPAQUE_PREDICATES else mode);
          mode = (if has_flag flags OBFUSCATE_FUNC_INTERLEAVE
                  then mode OR OBFUSCATE_FUNC_INTERLEAVE else mode)
      in mode)"

definition luaO_flatten ::
  "lopcodes \<Rightarrow> lua_State \<Rightarrow> global_State \<Rightarrow> Proto \<Rightarrow> int \<Rightarrow> 32 word
     \<Rightarrow> int \<times> Proto \<times> global_State" where
  "luaO_flatten H L0 g p flags sd =
     (if \<not> has_flag flags OBFUSCATE_CFF then
        (if has_flag flags OBFUSCATE_VM_PROTECT
         then luaO_vmProtect H L0 g p (sd XOR 0xFEDCBA98)
         else (0, p, g))
      else if sizecode p < 4 then (0, p, g)
      else if list_ex (\<lambda>i. is_loop_opcode (GET_OPCODE i)) (code p) then (0, p, g)
      else
        (case initContext L0 p flags sd of
           None \<Rightarrow> (-1, p, g)
         | Some ctx0 \<Rightarrow>
             (case luaO_identifyBlocks H ctx0 of
                None \<Rightarrow> (-1, p, g)
              | Some ctx1 \<Rightarrow>
                  if num_blocks ctx1 < 2 then (0, p, g)
                  else
                    (let ctx2 = (if has_flag flags OBFUSCATE_BLOCK_SHUFFLE
                                 then luaO_shuffleBlocks ctx1 else ctx1)
                     in case (if has_flag flags OBFUSCATE_NESTED_DISPATCHER
                              then luaO_generateNestedDispatcher H ctx2
                              else luaO_generateDispatcher H ctx2) of
                          None \<Rightarrow> (-1, p, g)
                        | Some ctx3 \<Rightarrow>
                            (let max_state_reg = max_state_reg_of ctx3 flags;
                                 p1 = p\<lparr>code := new_code ctx3\<rparr>;
                                 p2 = (if max_state_reg \<ge> maxstacksize p1
                                       then p1\<lparr>maxstacksize := max_state_reg + 1\<rparr> else p1);
                                 p3 = p2\<lparr>difierline_mode :=
                                            flattened_mode (difierline_mode p2) flags,
                                          difierline_magicnum := CFF_MAGIC,
                                          difierline_data :=
                                            push_bit 32 (word_of_int (num_blocks ctx3))
                                              OR ucast (seed ctx3)\<rparr>
                             in if has_flag flags OBFUSCATE_VM_PROTECT then
                                  (case luaO_vmProtect H (L ctx3) g p3 (sd XOR 0xFEDCBA98) of
                                     (st, p4, g1) \<Rightarrow>
                                       if st \<noteq> 0 then (-1, p4, g1) else (0, p4, g1))
                                else (0, p3, g))))))"

subsection \<open>Concrete inputs\<close>

text \<open>
  The parameters as stock Lua 5.4 has them (excess-K offsets of the 17-bit \<open>sBx\<close>,
  the 25-bit \<open>sJ\<close> and the 8-bit \<open>sC\<close> operand), for the evaluations below.
\<close>

definition H_ex :: lopcodes where
  "H_ex = \<lparr> OFFSET_sBx = 65535, OFFSET_sJ = 16777215, OFFSET_sC = 127,
            NUM_OPCODES = 102, getOpMode = (\<lambda>op. if op = OP_JMP then isJ else iABC) \<rparr>"

definition L_ex :: lua_State where
  "L_ex = \<lparr> allocs = 1000 \<rparr>"

definition g_ex :: global_State where
  "g_ex = \<lparr> vm_code_list = [] \<rparr>"

text \<open>
  \<open>if a then return 1 else return 2 end\<close>: a test with its jump, two returning
  branches and the final return.
\<close>

definition p_if :: Proto where
  "p_if = \<lparr> proto_addr = 1,
      code = [CREATE_ABCk OP_TEST 0 0 0 0, CREATE_sJ OP_JMP (16777215 + 1) 0,
              CREATE_ABCk OP_RETURN1 1 0 0 0, CREATE_ABCk OP_RETURN1 2 0 0 0,
              CREATE_ABCk OP_RETURN0 0 0 0 0],
      maxstacksize = 3, difierline_mode = 0, difierline_magicnum = 0,
      difierline_data = 0, vm_code_table = None \<rparr>"

definition ctx_if :: CFFContext where
  "ctx_if = \<lparr> L = L_ex, f = p_if, blocks = [], block_capacity = 16,
      new_code = [], new_code_capacity = 0, state_reg = 3, outer_state_reg = 4,
      opaque_reg1 = 5, opaque_reg2 = 6, func_id_reg = 7, dispatcher_pc = 0,
      outer_dispatcher_pc = 0, num_groups = 0, group_starts = [], num_fake_funcs = 0,
      seed = 42, obfuscate_flags = 1 \<rparr>"

text \<open>Four blocks with state ids 0..3, as \<open>addBlock\<close> numbers them.\<close>

definition bs_four :: "BasicBlock list" where
  "bs_four = map (\<lambda>i. \<lparr> start_pc = i, end_pc = i + 1, state_id = i,
                         original_target = -1, fall_through = -1, cond_target = -1,
                         is_entry = (if i = 0 then 1 else 0), is_exit = 0 \<rparr>) [0, 1, 2, 3]"

definition ctx_four :: CFFContext where
  "ctx_four = ctx_if\<lparr>blocks := bs_four\<rparr>"

text \<open>
  A metadata structure before any call, and a 20-byte buffer that holds a valid header
  announcing one block, but no block record.
\<close>

definition md_zero :: CFFMetadata where
  "md_zero = \<lparr> enabled = 0, md_num_blocks = 0, md_state_reg = 0, md_dispatcher_pc = 0,
               block_mapping = None, original_size = 0, md_seed = 0 \<rparr>"

definition buf_truncated :: "32 word list" where
  "buf_truncated = [0x43464600, 1, 1, 7, 99]"

text \<open>The same context with the flags \<open>CFF | BOGUS_BLOCKS\<close>.\<close>

definition ctx_bogus :: CFFContext where
  "ctx_bogus = ctx_if\<lparr>obfuscate_flags := 5\<rparr>"

text \<open>Two instructions; four with a numeric loop; five in a straight line.\<close>

definition p_short :: Proto where
  "p_short = p_if\<lparr>code := [CREATE_ABx OP_LOADI 0 65536, CREATE_ABCk OP_RETURN1 0 2 0 0]\<rparr>"

definition p_loop :: Proto where
  "p_loop = p_if\<lparr>code := [CREATE_ABx OP_LOADI 0 65536, CREATE_ABx OP_FORPREP 0 1,
                            CREATE_ABx OP_FORLOOP 0 1, CREATE_ABCk OP_RETURN0 0 1 0 0]\<rparr>"

definition p_straight :: Proto where
  "p_straight = p_if\<lparr>code := [CREATE_ABx OP_LOADI 0 65536, CREATE_ABx OP_LOADI 1 65537,
                                CREATE_ABCk OP_ADD 2 0 1 0, CREATE_ABCk OP_MMBIN 0 1 6 0,
                                CREATE_ABCk OP_RETURN1 2 2 0 0]\<rparr>"

subsection \<open>Predicates used in the proofs\<close>

definition blocks_upto :: "BasicBlock list \<Rightarrow> int \<Rightarrow> bool" where
  "blocks_upto bs e \<longleftrightarrow>
     (\<forall>i<length bs. 0 \<le> start_pc (bs ! i) \<and> start_pc (bs ! i) < end_pc (bs ! i)
         \<and> end_pc (bs ! i) \<le> e
         \<and> start_pc (bs ! i) = (if i = 0 then 0 else end_pc (bs ! (i - 1)))
         \<and> state_id (bs ! i) = int i
         \<and> is_entry (bs ! i) = (if i = 0 then 1 else 0))
     \<and> e = (if bs = [] then 0 else end_pc (last bs))
     \<and> (\<forall>pc. 0 \<le> pc \<and> pc < e \<longrightarrow>
           (\<exists>!i. i < length bs \<and> start_pc (bs ! i) \<le> pc \<and> pc < end_pc (bs ! i)))"

definition block_range :: "BasicBlock \<Rightarrow> int \<times> int \<times> int \<times> int" where
  "block_range b = (start_pc b, end_pc b, state_id b, is_entry b)"

text \<open>The fields of the VM context that emitting an instruction leaves as they are.\<close>

definition vm_frame :: "VMProtectContext \<Rightarrow> VMProtectContext \<Rightarrow> bool" where
  "vm_frame ctx ctx' \<longleftrightarrow>
     encrypt_key ctx' = encrypt_key ctx \<and> reverse_map ctx' = reverse_map ctx
     \<and> opcode_map ctx' = opcode_map ctx \<and> vm_f ctx' = vm_f ctx"

section \<open>Properties\<close>

subsection \<open>Arithmetic helpers\<close>

lemmas opcode_defs =
  OP_MOVE_def OP_LOADI_def OP_ADDI_def OP_SHLI_def OP_ADD_def OP_SUB_def OP_MUL_def
  OP_MMBIN_def OP_LEN_def OP_JMP_def OP_EQ_def OP_LT_def OP_LE_def OP_EQK_def OP_EQI_def
  OP_LTI_def OP_LEI_def OP_GTI_def OP_GEI_def OP_TEST_def OP_TESTSET_def OP_TAILCALL_def
  OP_RETURN_def OP_RETURN0_def OP_RETURN1_def OP_FORLOOP_def OP_FORPREP_def
  OP_TFORPREP_def OP_TFORCALL_def OP_TFORLOOP_def OP_TESTNIL_def OP_NOP_def

lemma c_int_id: "- (2 ^ 31) \<le> x \<Longrightarrow> x < 2 ^ 31 \<Longrightarrow> c_int x = x"
  unfolding c_int_def by (simp add: signed_take_bit_int_eq_self)

lemma smod_nonneg: "0 \<le> (a::int) \<Longrightarrow> a smod b = a mod \<bar>b\<bar>"
  by (simp add: signed_modulo_int_def sgn_if)

subsection \<open>State encoder\<close>

lemma encodeState_formula:
  assumes "0 \<le> state" "state < 30000"
  shows "luaO_encodeState state sd = (state * 7919 + uint sd mod 30000) mod 30000"
proof -
  have b: "state * 7919 < 2 ^ 31" "- (2 ^ 31) \<le> state * 7919"
    using assms by simp_all
  have c: "c_int (state * 7919) = state * 7919"
    using b by (simp add: c_int_id)
  have p: "0 \<le> state * 7919"
    using assms by simp
  have m: "0 \<le> (state * 7919) mod 30000"
    by simp
  show ?thesis
    unfolding luaO_encodeState_def Let_def c
    using p m by (simp add: smod_nonneg uint_mod mod_simps)
qed

text \<open>7919 is invertible modulo 30000: \<open>7919 * 7679 = 1 + 30000 * 2027\<close>.\<close>

lemma mult_7919_cancel:
  assumes "(a * 7919 + k) mod 30000 = (b * 7919 + k) mod (30000::int)"
    and "0 \<le> a" "a < 30000" "0 \<le> b" "b < 30000"
  shows "a = b"
proof -
  have "(a * 7919) mod 30000 = (b * 7919) mod (30000::int)"
    using assms(1) by (metis add_diff_cancel_right' mod_diff_cong)
  then have "(a * 7919 * 7679) mod 30000 = (b * 7919 * 7679) mod (30000::int)"
    by (metis mod_mult_cong)
  moreover have "a * 7919 * 7679 = a + 30000 * (2027 * a)"
    by simp
  moreover have "b * 7919 * 7679 = b + 30000 * (2027 * b)"
    by simp
  ultimately have "(a + 30000 * (2027 * a)) mod 30000 = (b + 30000 * (2027 * b)) mod 30000"
    by (simp only:)
  then have "a mod 30000 = b mod 30000"
    by (simp only: mod_mult_self2)
  with assms show ?thesis by simp
qed

lemma encodeState_inj:
  "inj_on (\<lambda>state. luaO_encodeState state sd) {0..<30000}"
proof (rule inj_onI)
  fix a b :: int
  assume a: "a \<in> {0..<30000}" and b: "b \<in> {0..<30000}"
    and e: "luaO_encodeState a sd = luaO_encodeState b sd"
  from a b e have "(a * 7919 + uint sd mod 30000) mod 30000
      = (b * 7919 + uint sd mod 30000) mod 30000"
    by (simp add: encodeState_formula)
  with a b show "a = b"
    by (intro mult_7919_cancel [of a "uint sd mod 30000" b]) simp_all
qed

text \<open>
  C2. For every seed the encoder computes
  \<open>(state * 7919 + seed mod 30000) mod 30000\<close> (a value in \<open>0..29999\<close>) on the state
  domain \<open>0..29999\<close>, and it is injective there, indeed a bijection of that range
  onto itself.
\<close>

theorem luaO_encodeState_bijection:
  "(\<forall>state\<in>{0..<30000}.
       luaO_encodeState state sd = (state * 7919 + uint sd mod 30000) mod 30000)
   \<and> inj_on (\<lambda>state. luaO_encodeState state sd) {0..<30000}
   \<and> bij_betw (\<lambda>state. luaO_encodeState state sd) {0..<30000} {0..<30000}"
proof -
  let ?f = "\<lambda>state. luaO_encodeState state sd"
  have f: "\<forall>state\<in>{0..<30000}. ?f state = (state * 7919 + uint sd mod 30000) mod 30000"
    by (simp add: encodeState_formula)
  have sub: "?f ` {0..<30000} \<subseteq> {0..<30000}"
    using f by auto
  have "?f ` {0..<30000} = {0..<30000}"
    by (rule endo_inj_surj [OF _ sub encodeState_inj]) simp
  with encodeState_inj f show ?thesis
    by (simp add: bij_betw_def)
qed

theorem luaO_encodeState_bijection_witness:
  "(5::int) \<in> {0..<30000} \<and> (6::int) \<in> {0..<30000}
   \<and> luaO_encodeState 5 12345 = 21940 \<and> luaO_encodeState 6 12345 = 29859"
proof -
  have m: "(5::int) \<in> {0..<30000}" "(6::int) \<in> {0..<30000}"
    by simp_all
  have "\<forall>state\<in>{0..<30000}.
       luaO_encodeState state 12345 = (state * 7919 + uint (12345::32 word) mod 30000) mod 30000"
    using luaO_encodeState_bijection [of 12345] by blast
  with m have "luaO_encodeState 5 12345 = (5 * 7919 + uint (12345::32 word) mod 30000) mod 30000"
    "luaO_encodeState 6 12345 = (6 * 7919 + uint (12345::32 word) mod 30000) mod 30000"
    by blast+
  with m show ?thesis by simp
qed

subsection \<open>Cipher\<close>

lemma rot_roundtrip:
  fixes w :: "64 word"
  assumes "r < 64"
  shows "drop_bit r (push_bit r w OR drop_bit (64 - r) w)
           OR push_bit (64 - r) (push_bit r w OR drop_bit (64 - r) w) = w"
proof (rule bit_word_eqI)
  fix n assume n: "n < LENGTH(64)"
  have idx: "r + n \<ge> 64 \<Longrightarrow> 64 + (n + r - 64) - r = n"
    by arith
  show "bit (drop_bit r (push_bit r w OR drop_bit (64 - r) w)
           OR push_bit (64 - r) (push_bit r w OR drop_bit (64 - r) w)) n = bit w n"
  proof (cases "r + n < 64")
    case True
    with assms n show ?thesis by (auto simp: bit_simps)
  next
    case False
    with assms n idx show ?thesis by (auto simp: bit_simps)
  qed
qed

text \<open>
  C10. For every 64-bit instruction word, every 64-bit key and every instruction
  offset \<open>pc\<close> (a non-negative \<open>int\<close>), decrypting the encrypted word with the same key
  and offset gives the word back.
\<close>

theorem decrypt_encrypt_VMInstruction:
  assumes "0 \<le> pc"
  shows "decryptVMInstruction (encryptVMInstruction inst key pc) key pc = inst"
proof -
  define r where "r = nat (pc mod 64)"
  have r: "r < 64"
    unfolding r_def by simp
  have s: "pc smod 64 = int r"
    using assms by (simp add: smod_nonneg r_def)
  have n: "nat (64 - int r) = 64 - r"
    using r by simp
  define e where "e = inst XOR key"
  define mk where "mk = key XOR (word_of_int pc * (0x9E3779B97F4A7C15 :: 64 word))"
  define x where "x = push_bit r e OR drop_bit (64 - r) e"
  have enc: "encryptVMInstruction inst key pc = x XOR mk"
    unfolding encryptVMInstruction_def Let_def s n nat_int e_def mk_def x_def by (rule refl)
  have dec: "decryptVMInstruction (x XOR mk) key pc
      = (drop_bit r ((x XOR mk) XOR mk) OR push_bit (64 - r) ((x XOR mk) XOR mk)) XOR key"
    unfolding decryptVMInstruction_def Let_def s n nat_int mk_def by (rule refl)
  have undo: "(x XOR mk) XOR mk = x"
    by (simp add: xor.assoc)
  have "drop_bit r x OR push_bit (64 - r) x = e"
    unfolding x_def by (rule rot_roundtrip [OF r])
  then have "decryptVMInstruction (x XOR mk) key pc = e XOR key"
    unfolding dec undo by simp
  also have "e XOR key = inst"
    unfolding e_def by (simp add: xor.assoc)
  finally show ?thesis
    unfolding enc by this
qed

theorem decrypt_encrypt_VMInstruction_witness:
  "(0::int) \<le> 5 \<and> encryptVMInstruction 0x1234 0xDEADBEEF 5 = 1663341759438801382
   \<and> decryptVMInstruction 1663341759438801382 0xDEADBEEF 5 = 0x1234"
proof -
  have h: "(0::int) \<le> 5" by simp
  have e: "encryptVMInstruction 0x1234 0xDEADBEEF 5 = 1663341759438801382"
    by (simp add: encryptVMInstruction_def signed_modulo_int_def)
  show ?thesis
    using decrypt_encrypt_VMInstruction [OF h, of "0x1234" "0xDEADBEEF"] h e by simp
qed

subsection \<open>Block identification\<close>

lemma blocks_upto_Nil: "blocks_upto [] 0"
  by (auto simp: blocks_upto_def)

lemma blocks_upto_snoc:
  assumes inv: "blocks_upto bs e" and lt: "e < pc"
    and b: "start_pc b = e" "end_pc b = pc" "state_id b = int (length bs)"
       "is_entry b = (if e = 0 then 1 else 0)"
  shows "blocks_upto (bs @ [b]) pc"
proof -
  let ?n = "length bs"
  have e0: "0 \<le> e" and eq0: "e = 0 \<longleftrightarrow> bs = []"
  proof -
    show "0 \<le> e"
    proof (cases "bs = []")
      case True with inv show ?thesis by (simp add: blocks_upto_def)
    next
      case False
      then have "?n - 1 < ?n" by simp
      with inv have "0 \<le> start_pc (bs ! (?n - 1))" "start_pc (bs ! (?n - 1)) < end_pc (bs ! (?n - 1))"
        "end_pc (bs ! (?n - 1)) \<le> e"
        unfolding blocks_upto_def by blast+
      then show ?thesis by linarith
    qed
    show "e = 0 \<longleftrightarrow> bs = []"
    proof (cases "bs = []")
      case True with inv show ?thesis by (simp add: blocks_upto_def)
    next
      case False
      then have "?n - 1 < ?n" by simp
      with inv have "0 \<le> start_pc (bs ! (?n - 1))" "start_pc (bs ! (?n - 1)) < end_pc (bs ! (?n - 1))"
        "end_pc (bs ! (?n - 1)) \<le> e"
        unfolding blocks_upto_def by blast+
      with False show ?thesis by linarith
    qed
  qed
  have last: "bs \<noteq> [] \<Longrightarrow> end_pc (bs ! (?n - 1)) = e"
    using inv by (simp add: blocks_upto_def last_conv_nth)
  have old: "\<And>i. i < ?n \<Longrightarrow> 0 \<le> start_pc (bs ! i) \<and> start_pc (bs ! i) < end_pc (bs ! i)
         \<and> end_pc (bs ! i) \<le> e
         \<and> start_pc (bs ! i) = (if i = 0 then 0 else end_pc (bs ! (i - 1)))
         \<and> state_id (bs ! i) = int i
         \<and> is_entry (bs ! i) = (if i = 0 then 1 else 0)"
    using inv unfolding blocks_upto_def by blast
  have cover: "\<And>q. 0 \<le> q \<Longrightarrow> q < e \<Longrightarrow>
      (\<exists>!i. i < ?n \<and> start_pc (bs ! i) \<le> q \<and> q < end_pc (bs ! i))"
    using inv unfolding blocks_upto_def by blast
  have A: "\<forall>i<length (bs @ [b]). 0 \<le> start_pc ((bs @ [b]) ! i)
         \<and> start_pc ((bs @ [b]) ! i) < end_pc ((bs @ [b]) ! i)
         \<and> end_pc ((bs @ [b]) ! i) \<le> pc
         \<and> start_pc ((bs @ [b]) ! i) = (if i = 0 then 0 else end_pc ((bs @ [b]) ! (i - 1)))
         \<and> state_id ((bs @ [b]) ! i) = int i
         \<and> is_entry ((bs @ [b]) ! i) = (if i = 0 then 1 else 0)"
  proof (intro allI impI)
    fix i assume "i < length (bs @ [b])"
    then consider "i < ?n" | "i = ?n" by force
    then show "0 \<le> start_pc ((bs @ [b]) ! i)
         \<and> start_pc ((bs @ [b]) ! i) < end_pc ((bs @ [b]) ! i)
         \<and> end_pc ((bs @ [b]) ! i) \<le> pc
         \<and> start_pc ((bs @ [b]) ! i) = (if i = 0 then 0 else end_pc ((bs @ [b]) ! (i - 1)))
         \<and> state_id ((bs @ [b]) ! i) = int i
         \<and> is_entry ((bs @ [b]) ! i) = (if i = 0 then 1 else 0)"
    proof cases
      case 1
      with old [OF 1] lt show ?thesis
        by (auto simp: nth_append)
    next
      case 2
      with b lt e0 eq0 last show ?thesis
        by (auto simp: nth_append)
    qed
  qed
  have E: "\<forall>q. 0 \<le> q \<and> q < pc \<longrightarrow>
           (\<exists>!i. i < length (bs @ [b]) \<and> start_pc ((bs @ [b]) ! i) \<le> q \<and> q < end_pc ((bs @ [b]) ! i))"
  proof (intro allI impI)
    fix q assume q: "0 \<le> q \<and> q < pc"
    show "\<exists>!i. i < length (bs @ [b]) \<and> start_pc ((bs @ [b]) ! i) \<le> q \<and> q < end_pc ((bs @ [b]) ! i)"
    proof (cases "q < e")
      case True
      with q cover obtain i where i: "i < ?n" "start_pc (bs ! i) \<le> q" "q < end_pc (bs ! i)"
        and u: "\<And>j. j < ?n \<Longrightarrow> start_pc (bs ! j) \<le> q \<Longrightarrow> q < end_pc (bs ! j) \<Longrightarrow> j = i"
        by blast
      show ?thesis
      proof (rule ex1I [of _ i])
        show "i < length (bs @ [b]) \<and> start_pc ((bs @ [b]) ! i) \<le> q \<and> q < end_pc ((bs @ [b]) ! i)"
          using i by (simp add: nth_append)
      next
        fix j assume j: "j < length (bs @ [b]) \<and> start_pc ((bs @ [b]) ! j) \<le> q \<and> q < end_pc ((bs @ [b]) ! j)"
        then consider "j < ?n" | "j = ?n" by force
        then show "j = i"
        proof cases
          case 1 with j u show ?thesis by (simp add: nth_append)
        next
          case 2 with j b True show ?thesis by (simp add: nth_append)
        qed
      qed
    next
      case False
      show ?thesis
      proof (rule ex1I [of _ ?n])
        show "?n < length (bs @ [b]) \<and> start_pc ((bs @ [b]) ! ?n) \<le> q \<and> q < end_pc ((bs @ [b]) ! ?n)"
          using False q b by simp
      next
        fix j assume j: "j < length (bs @ [b]) \<and> start_pc ((bs @ [b]) ! j) \<le> q \<and> q < end_pc ((bs @ [b]) ! j)"
        then consider "j < ?n" | "j = ?n" by force
        then show "j = ?n"
        proof cases
          case 1 with j old [OF 1] False show ?thesis by (simp add: nth_append)
        next
          case 2 then show ?thesis .
        qed
      qed
    qed
  qed
  have D: "pc = (if bs @ [b] = [] then 0 else end_pc (last (bs @ [b])))"
    using b by simp
  show ?thesis
    unfolding blocks_upto_def using A D E by blast
qed

lemma addBlock_blocks:
  assumes "addBlock ctx s e = Some (idx, ctx1)"
  shows "\<exists>b. blocks ctx1 = blocks ctx @ [b] \<and> start_pc b = s \<and> end_pc b = e
           \<and> state_id b = int (length (blocks ctx)) \<and> is_entry b = (if s = 0 then 1 else 0)"
    and "f ctx1 = f ctx"
  using assms
  by (auto simp: addBlock_def Let_def split: if_splits option.splits)

lemma split_blocks_inv:
  assumes "split_blocks ldr n pcs bstart ctx = Some ctx1"
    and "blocks_upto (blocks ctx) (int bstart)"
    and "\<forall>pc\<in>set pcs. bstart < pc" "sorted_wrt (<) pcs"
    and "pcs \<noteq> []" "last pcs = n"
  shows "blocks_upto (blocks ctx1) (int n) \<and> f ctx1 = f ctx"
  using assms
proof (induction pcs arbitrary: bstart ctx)
  case Nil
  then show ?case by simp
next
  case (Cons pc pcs)
  show ?case
  proof (cases "pc = n \<or> ldr ! pc")
    case True
    with Cons.prems(1) obtain idx ctx2 where
      a: "addBlock ctx (int bstart) (int pc) = Some (idx, ctx2)"
      and r: "split_blocks ldr n pcs pc ctx2 = Some ctx1"
      by (auto split: option.splits)
    from addBlock_blocks [OF a] obtain b where b: "blocks ctx2 = blocks ctx @ [b]"
      "start_pc b = int bstart" "end_pc b = int pc"
      "state_id b = int (length (blocks ctx))" "is_entry b = (if int bstart = 0 then 1 else 0)"
      and ff: "f ctx2 = f ctx"
      by blast
    have lt: "int bstart < int pc" using Cons.prems(3) by simp
    have inv2: "blocks_upto (blocks ctx2) (int pc)"
      unfolding b(1) by (rule blocks_upto_snoc [OF Cons.prems(2) lt b(2-5)])
    show ?thesis
    proof (cases "pcs = []")
      case True
      with r Cons.prems(6) inv2 ff show ?thesis by simp
    next
      case False
      have "blocks_upto (blocks ctx1) (int n) \<and> f ctx1 = f ctx2"
        using Cons.prems(4,6) False
        by (intro Cons.IH [OF r inv2]) auto
      with ff show ?thesis by simp
    qed
  next
    case False
    with Cons.prems(1) have r: "split_blocks ldr n pcs bstart ctx = Some ctx1"
      by simp
    from False Cons.prems(6) have ne: "pcs \<noteq> []" by auto
    show ?thesis
      using Cons.prems(3,4,6) ne
      by (intro Cons.IH [OF r Cons.prems(2)]) auto
  qed
qed


lemma analyze_exit_ranges:
  "map block_range (blocks (analyze_exit H ctx i)) = map block_range (blocks ctx)"
  "f (analyze_exit H ctx i) = f ctx"
proof -
  have upd: "\<And>b. block_range b = block_range (blocks ctx ! i) \<Longrightarrow>
      map block_range ((blocks ctx)[i := b]) = map block_range (blocks ctx)"
  proof -
    fix b assume e: "block_range b = block_range (blocks ctx ! i)"
    show "map block_range ((blocks ctx)[i := b]) = map block_range (blocks ctx)"
    proof (cases "i < length (blocks ctx)")
      case True
      then show ?thesis by (simp add: map_update e list_update_same_conv)
    next
      case False
      then have "length (blocks ctx) \<le> i" by simp
      then show ?thesis by (simp only: list_update_beyond)
    qed
  qed
  show "map block_range (blocks (analyze_exit H ctx i)) = map block_range (blocks ctx)"
    unfolding analyze_exit_def Let_def
    by (auto intro!: upd simp: block_range_def)
  show "f (analyze_exit H ctx i) = f ctx"
    unfolding analyze_exit_def Let_def by simp
qed

lemma foldl_analyze_exit_ranges:
  "map block_range (blocks (foldl (analyze_exit H) ctx is)) = map block_range (blocks ctx)
   \<and> f (foldl (analyze_exit H) ctx is) = f ctx"
  by (induction "is" arbitrary: ctx) (simp_all add: analyze_exit_ranges)

lemma blocks_upto_cong:
  assumes "map block_range bs' = map block_range bs" "blocks_upto bs e"
  shows "blocks_upto bs' e"
proof -
  have len: "length bs' = length bs"
    using assms(1) by (metis length_map)
  have nth: "\<And>i. i < length bs \<Longrightarrow> block_range (bs' ! i) = block_range (bs ! i)"
    using assms(1) len by (metis nth_map)
  have s: "\<And>i. i < length bs \<Longrightarrow> start_pc (bs' ! i) = start_pc (bs ! i)"
    and e: "\<And>i. i < length bs \<Longrightarrow> end_pc (bs' ! i) = end_pc (bs ! i)"
    and t: "\<And>i. i < length bs \<Longrightarrow> state_id (bs' ! i) = state_id (bs ! i)"
    and n: "\<And>i. i < length bs \<Longrightarrow> is_entry (bs' ! i) = is_entry (bs ! i)"
    using nth by (simp_all add: block_range_def)
  have emp: "bs' = [] \<longleftrightarrow> bs = []"
    using len by auto
  have lst: "bs \<noteq> [] \<Longrightarrow> end_pc (last bs') = end_pc (last bs)"
    using len emp e [of "length bs - 1"] by (simp add: last_conv_nth)
  have "blocks_upto bs' e = blocks_upto bs e"
    unfolding blocks_upto_def len emp
    by (simp add: s e t n lst cong: conj_cong)
  with assms(2) show ?thesis by simp
qed


lemma blocks_upto_facts:
  assumes "blocks_upto bs e" "0 < e"
  shows "bs \<noteq> []"
    and "start_pc (hd bs) = 0"
    and "end_pc (last bs) = e"
    and "\<forall>i. Suc i < length bs \<longrightarrow> end_pc (bs ! i) = start_pc (bs ! Suc i)"
    and "\<forall>i<length bs. start_pc (bs ! i) < end_pc (bs ! i)"
    and "\<forall>i<length bs. state_id (bs ! i) = int i"
    and "\<forall>i<length bs. (is_entry (bs ! i) \<noteq> 0) = (i = 0)"
    and "\<forall>i<length bs. (start_pc (bs ! i) = 0) = (i = 0)"
proof -
  have all: "\<And>i. i < length bs \<Longrightarrow> 0 \<le> start_pc (bs ! i) \<and> start_pc (bs ! i) < end_pc (bs ! i)
         \<and> end_pc (bs ! i) \<le> e
         \<and> start_pc (bs ! i) = (if i = 0 then 0 else end_pc (bs ! (i - 1)))
         \<and> state_id (bs ! i) = int i
         \<and> is_entry (bs ! i) = (if i = 0 then 1 else 0)"
    using assms(1) unfolding blocks_upto_def by blast
  have e: "e = (if bs = [] then 0 else end_pc (last bs))"
    using assms(1) unfolding blocks_upto_def by blast
  show ne: "bs \<noteq> []"
    using e assms(2) by auto
  then have l0: "0 < length bs" by simp
  show "start_pc (hd bs) = 0"
    using all [OF l0] ne by (simp add: hd_conv_nth)
  show "end_pc (last bs) = e"
    using e ne by simp
  show "\<forall>i. Suc i < length bs \<longrightarrow> end_pc (bs ! i) = start_pc (bs ! Suc i)"
    using all by fastforce
  show "\<forall>i<length bs. start_pc (bs ! i) < end_pc (bs ! i)"
    using all by blast
  show "\<forall>i<length bs. state_id (bs ! i) = int i"
    using all by blast
  show "\<forall>i<length bs. (is_entry (bs ! i) \<noteq> 0) = (i = 0)"
    using all by simp
  show "\<forall>i<length bs. (start_pc (bs ! i) = 0) = (i = 0)"
  proof (intro allI impI)
    fix i assume i: "i < length bs"
    show "(start_pc (bs ! i) = 0) = (i = 0)"
    proof (cases "i = 0")
      case True with all [OF i] show ?thesis by simp
    next
      case False
      then have p: "i - 1 < length bs" using i by simp
      from all [OF i] False have "start_pc (bs ! i) = end_pc (bs ! (i - 1))" by simp
      moreover from all [OF p] have "0 < end_pc (bs ! (i - 1))" by linarith
      ultimately show ?thesis using False by simp
    qed
  qed
qed

lemma luaO_identifyBlocks_upto:
  assumes "blocks ctx = []" and "luaO_identifyBlocks H ctx = Some ctx'"
  shows "blocks_upto (blocks ctx') (sizecode (f ctx))" and "0 < sizecode (f ctx)"
    and "f ctx' = f ctx"
proof -
  let ?n = "length (code (f ctx))"
  from assms(2) show pos: "0 < sizecode (f ctx)"
    by (auto simp: luaO_identifyBlocks_def Let_def split: if_splits)
  have n1: "Suc 0 \<le> ?n"
    using pos by (cases "code (f ctx)") simp_all
  define pcs where "pcs = [1..<?n + 1]"
  from assms(2) pos obtain L1 ldr ctx1 where
    sp: "split_blocks ldr ?n pcs 0 (ctx\<lparr>L := L1\<rparr>) = Some ctx1"
    and fin: "ctx' = foldl (analyze_exit H) ctx1 [0..<length (blocks ctx1)]"
    unfolding luaO_identifyBlocks_def Let_def pcs_def [symmetric]
    by (auto split: if_splits option.splits)
  have i0: "blocks_upto (blocks (ctx\<lparr>L := L1\<rparr>)) (int 0)"
    using assms(1) by (simp add: blocks_upto_Nil)
  have "blocks_upto (blocks ctx1) (int ?n) \<and> f ctx1 = f (ctx\<lparr>L := L1\<rparr>)"
  proof (rule split_blocks_inv [OF sp i0])
    show "\<forall>pc\<in>set pcs. 0 < pc" by (auto simp: pcs_def)
    show "sorted_wrt (<) pcs" unfolding pcs_def by (rule sorted_wrt_upt)
    show "pcs \<noteq> []" using n1 by (simp add: pcs_def)
    show "last pcs = ?n" using n1 by (simp add: pcs_def)
  qed
  then have u1: "blocks_upto (blocks ctx1) (int ?n)" and f1: "f ctx1 = f ctx"
    by simp_all
  from foldl_analyze_exit_ranges [of H ctx1 "[0..<length (blocks ctx1)]"]
  have r: "map block_range (blocks ctx') = map block_range (blocks ctx1)" and f2: "f ctx' = f ctx1"
    unfolding fin by simp_all
  show "blocks_upto (blocks ctx') (sizecode (f ctx))"
    by (rule blocks_upto_cong [OF r u1])
  show "f ctx' = f ctx"
    using f1 f2 by simp
qed

text \<open>
  C5. After \<open>luaO_identifyBlocks\<close> succeeds on a context without blocks (as
  \<open>initContext\<close> makes it), the blocks are not empty, the first starts at 0, the last
  ends at the code length, each block ends where the next starts, no block is empty,
  every offset below the code length lies in exactly one block, and exactly the block
  at index 0, the one starting at offset 0, has \<open>is_entry\<close> set.
\<close>

theorem luaO_identifyBlocks_partition:
  assumes "blocks ctx = []" and "luaO_identifyBlocks H ctx = Some ctx'"
  shows "blocks ctx' \<noteq> []
     \<and> start_pc (hd (blocks ctx')) = 0
     \<and> end_pc (last (blocks ctx')) = sizecode (f ctx)
     \<and> (\<forall>i. Suc i < length (blocks ctx') \<longrightarrow>
            end_pc (blocks ctx' ! i) = start_pc (blocks ctx' ! Suc i))
     \<and> (\<forall>i<length (blocks ctx'). start_pc (blocks ctx' ! i) < end_pc (blocks ctx' ! i))
     \<and> (\<forall>pc. 0 \<le> pc \<and> pc < sizecode (f ctx) \<longrightarrow>
            (\<exists>!i. i < length (blocks ctx')
                  \<and> start_pc (blocks ctx' ! i) \<le> pc \<and> pc < end_pc (blocks ctx' ! i)))
     \<and> (\<forall>i<length (blocks ctx'). (is_entry (blocks ctx' ! i) \<noteq> 0) = (i = 0))
     \<and> (\<forall>i<length (blocks ctx'). (start_pc (blocks ctx' ! i) = 0) = (i = 0))"
proof -
  note u = luaO_identifyBlocks_upto [OF assms]
  have cover: "\<forall>pc. 0 \<le> pc \<and> pc < sizecode (f ctx) \<longrightarrow>
            (\<exists>!i. i < length (blocks ctx')
                  \<and> start_pc (blocks ctx' ! i) \<le> pc \<and> pc < end_pc (blocks ctx' ! i))"
    using u(1) unfolding blocks_upto_def by blast
  from blocks_upto_facts [OF u(1) u(2)] cover show ?thesis
    by blast
qed

theorem luaO_identifyBlocks_partition_witness:
  "blocks ctx_if = []
   \<and> (\<exists>ctx'. luaO_identifyBlocks H_ex ctx_if = Some ctx'
         \<and> map (\<lambda>b. (start_pc b, end_pc b, is_entry b)) (blocks ctx')
             = [(0, 2, 1), (2, 3, 0), (3, 4, 0), (4, 5, 0)]
         \<and> end_pc (last (blocks ctx')) = sizecode (f ctx_if))"
proof -
  have b: "blocks ctx_if = []"
    by (simp add: ctx_if_def)
  have e: "map_option (\<lambda>c. map (\<lambda>b. (start_pc b, end_pc b, is_entry b)) (blocks c))
             (luaO_identifyBlocks H_ex ctx_if)
           = Some [(0, 2, 1), (2, 3, 0), (3, 4, 0), (4, 5, 0)]"
    by code_simp
  then obtain ctx' where r: "luaO_identifyBlocks H_ex ctx_if = Some ctx'"
    and v: "map (\<lambda>b. (start_pc b, end_pc b, is_entry b)) (blocks ctx')
             = [(0, 2, 1), (2, 3, 0), (3, 4, 0), (4, 5, 0)]"
    by (cases "luaO_identifyBlocks H_ex ctx_if") simp_all
  from luaO_identifyBlocks_partition [OF b r]
  have l: "end_pc (last (blocks ctx')) = sizecode (f ctx_if)"
    by (elim conjE)
  show ?thesis
    using b r v l by (intro conjI exI [of _ ctx'])
qed

subsection \<open>Shuffle\<close>

lemma shuffle_loop_props:
  assumes "n < length bs"
  shows "mset (map state_id (snd (shuffle_loop n sd bs))) = mset (map state_id bs)
     \<and> length (snd (shuffle_loop n sd bs)) = length bs
     \<and> state_id (snd (shuffle_loop n sd bs) ! 0) = state_id (bs ! 0)"
  using assms
proof (induction n arbitrary: sd bs)
  case 0
  then show ?case by simp
next
  case (Suc n)
  show ?case
  proof (cases "Suc n > 1")
    case False
    then show ?thesis by simp
  next
    case True
    define sd1 where "sd1 = NEXT_RAND sd"
    define i where "i = Suc n"
    define j where "j = nat (1 + uint sd1 mod int i)"
    define bs1 where "bs1 = bs[i := (bs ! i)\<lparr>state_id := state_id (bs ! j)\<rparr>]"
    define bs2 where "bs2 = bs1[j := (bs1 ! j)\<lparr>state_id := state_id (bs ! i)\<rparr>]"
    have st: "shuffle_loop (Suc n) sd bs = shuffle_loop n sd1 bs2"
      using True by (simp add: Let_def sd1_def i_def j_def bs1_def bs2_def)
    have i: "i < length bs" "1 < i" using Suc.prems True by (simp_all add: i_def)
    have k: "0 \<le> uint sd1 mod int i" "uint sd1 mod int i < int i"
      using i by simp_all
    have j: "1 \<le> j" "j \<le> i" "j < length bs"
      using k i unfolding j_def by linarith+
    have len: "length bs2 = length bs" by (simp add: bs2_def bs1_def)
    let ?xs = "map state_id bs"
    have m1: "map state_id bs1 = ?xs[i := ?xs ! j]"
      using j by (simp add: bs1_def map_update)
    have m2: "map state_id bs2 = ?xs[i := ?xs ! j, j := ?xs ! i]"
      using i by (simp add: bs2_def map_update m1)
    have ms: "mset (map state_id bs2) = mset ?xs"
      unfolding m2 using i j by (intro mset_swap) simp_all
    have z: "state_id (bs2 ! 0) = state_id (bs ! 0)"
      using i j by (simp add: bs2_def bs1_def)
    have n: "n < length bs2" using Suc.prems len by simp
    from Suc.IH [OF n, of sd1] ms len z show ?thesis
      unfolding st by simp
  qed
qed

text \<open>
  C6. For blocks whose state ids equal their indices, the state ids are a permutation
  of \<open>0..n-1\<close> before and after \<open>luaO_shuffleBlocks\<close>; the shuffle keeps the number
  of blocks and the state id of the block at index 0, and changes nothing for
  \<open>n \<le> 2\<close>.
\<close>

theorem luaO_shuffleBlocks_permutation:
  assumes "\<forall>i<length (blocks ctx). state_id (blocks ctx ! i) = int i"
  shows "mset (map state_id (blocks ctx)) = mset (map int [0..<length (blocks ctx)])
     \<and> mset (map state_id (blocks (luaO_shuffleBlocks ctx)))
         = mset (map int [0..<length (blocks ctx)])
     \<and> length (blocks (luaO_shuffleBlocks ctx)) = length (blocks ctx)
     \<and> (blocks ctx \<noteq> [] \<longrightarrow>
          state_id (blocks (luaO_shuffleBlocks ctx) ! 0) = state_id (blocks ctx ! 0))
     \<and> (length (blocks ctx) \<le> 2 \<longrightarrow> luaO_shuffleBlocks ctx = ctx)"
proof -
  have ids: "map state_id (blocks ctx) = map int [0..<length (blocks ctx)]"
    using assms by (intro nth_equalityI) simp_all
  show ?thesis
  proof (cases "length (blocks ctx) \<le> 2")
    case True
    then show ?thesis by (simp add: luaO_shuffleBlocks_def ids)
  next
    case False
    then have n: "length (blocks ctx) - 1 < length (blocks ctx)" by simp
    obtain sd bs where r: "shuffle_loop (length (blocks ctx) - 1) (seed ctx) (blocks ctx) = (sd, bs)"
      by (cases "shuffle_loop (length (blocks ctx) - 1) (seed ctx) (blocks ctx)")
    have b: "blocks (luaO_shuffleBlocks ctx) = bs"
      using False r by (simp add: luaO_shuffleBlocks_def)
    from shuffle_loop_props [OF n, of "seed ctx"] r ids False show ?thesis
      unfolding b by simp
  qed
qed

theorem luaO_shuffleBlocks_permutation_witness:
  "map state_id (blocks ctx_four) = [0, 1, 2, 3]
   \<and> map state_id (blocks (luaO_shuffleBlocks ctx_four)) = [0, 3, 1, 2]
   \<and> mset (map state_id (blocks (luaO_shuffleBlocks ctx_four)))
        = mset (map int [0..<length (blocks ctx_four)])"
proof -
  have h: "\<forall>i<length (blocks ctx_four). state_id (blocks ctx_four ! i) = int i"
    by (simp add: ctx_four_def bs_four_def All_less_Suc numeral_eq_Suc)
  have e: "map state_id (blocks (luaO_shuffleBlocks ctx_four)) = [0, 3, 1, 2]"
    by code_simp
  from luaO_shuffleBlocks_permutation [OF h]
  have m: "mset (map state_id (blocks (luaO_shuffleBlocks ctx_four)))
        = mset (map int [0..<length (blocks ctx_four)])"
    by (elim conjE)
  have i: "map state_id (blocks ctx_four) = [0, 1, 2, 3]"
    by (simp add: ctx_four_def bs_four_def)
  show ?thesis
    using i e m by (intro conjI)
qed

subsection \<open>Metadata\<close>

lemma sint_int32: "- (2 ^ 31) \<le> x \<Longrightarrow> x < 2 ^ 31 \<Longrightarrow> sint (word_of_int x :: 32 word) = x"
  by (simp add: signed_of_int signed_take_bit_int_eq_self)

lemma sint_nat32: "n < 2 ^ 31 \<Longrightarrow> sint (word_of_nat n :: 32 word) = int n"
  using sint_int32 [of "int n"] by simp

lemma expected_size_nat:
  assumes "n < 2 ^ 31"
  shows "unat ((4 * 4 + 4 :: 64 word) + 32 * word_of_int (int n)) = 20 + 32 * n"
proof -
  have "(4 * 4 + 4 :: 64 word) + 32 * word_of_int (int n) = of_nat (20 + 32 * n)"
    by simp
  moreover have "20 + 32 * n < 2 ^ 64"
    using assms by simp
  ultimately show ?thesis
    by (intro of_nat_inverse) simp_all
qed

lemma malloc_blocks:
  assumes "0 < n" "n < 2 ^ 31" "0 < allocs L0"
  shows "luaM_malloc L0 (sizeof_int * word_of_int (int n)) = Some (L0\<lparr>allocs := allocs L0 - 1\<rparr>)"
proof -
  have "unat (of_nat (4 * n) :: 64 word) = 4 * n"
    using assms(2) by (intro of_nat_inverse) simp_all
  then have "(of_nat (4 * n) :: 64 word) \<noteq> 0"
    using assms(1) by (auto simp del: of_nat_mult)
  then show ?thesis
    using assms(3) by (simp add: luaM_malloc_def sizeof_int_def)
qed

text \<open>
  C8, as stated, fails on a context without blocks: the serialization of \<open>ctx_if\<close>
  into a buffer of 20 bytes succeeds and gives the five cells of the header, and
  deserializing these 20 bytes fails, the request for the block mapping being one for
  0 bytes.
\<close>

theorem metadata_roundtrip_zero_blocks:
  "blocks ctx_if = [] \<and> 0 < allocs L_ex
   \<and> luaO_serializeMetadata ctx_if (Some [0, 0, 0, 0, 0]) 20
       = (0, Some [0x43464600, 1, 0, 3, 42], 20)
   \<and> luaO_deserializeMetadata L_ex [0x43464600, 1, 0, 3, 42] 20 md_zero
       = (-1, md_zero\<lparr>md_num_blocks := 0, md_state_reg := 3, md_seed := 42\<rparr>)"
  by (simp add: luaO_serializeMetadata_def luaO_deserializeMetadata_def Let_def ctx_if_def
      L_ex_def md_zero_def CFF_MAGIC_def CFF_VERSION_def luaM_malloc_def sizeof_int_def)

text \<open>
  C8, amended. For every context with at least one block (whose block count and state
  register are C \<open>int\<close>s), a serialization into a large enough buffer succeeds, and
  deserializing the result, with the block mapping allocated, succeeds and gives back
  the block count, the state register and the seed.
\<close>

theorem metadata_roundtrip:
  assumes "blocks ctx \<noteq> []"
    and "length (blocks ctx) < 2 ^ 31"
    and "- (2 ^ 31) \<le> state_reg ctx" "state_reg ctx < 2 ^ 31"
    and "4 * 4 + 4 + 32 * length (blocks ctx) \<le> sz"
    and "0 < allocs L0"
  shows "\<exists>out n md'.
           luaO_serializeMetadata ctx (Some buf) sz = (0, Some out, n)
         \<and> luaO_deserializeMetadata L0 out n md = (0, md')
         \<and> md_num_blocks md' = num_blocks ctx
         \<and> md_state_reg md' = state_reg ctx
         \<and> md_seed md' = seed ctx"
proof -
  let ?n = "length (blocks ctx)"
  let ?needed = "4 * 4 + 4 + 32 * ?n"
  let ?hdr = "[word_of_int CFF_MAGIC, word_of_int CFF_VERSION,
               word_of_int (num_blocks ctx), word_of_int (state_reg ctx), seed ctx] :: 32 word list"
  let ?out = "?hdr @ concat (map block_cells (blocks ctx)) @ drop (?needed div 4) buf"
  have ser: "luaO_serializeMetadata ctx (Some buf) sz = (0, Some ?out, ?needed)"
    using assms(5) by (simp add: luaO_serializeMetadata_def Let_def)
  have c0: "sint (?out ! 0) = CFF_MAGIC"
    by (simp add: CFF_MAGIC_def)
  have c1: "sint (?out ! 1) = CFF_VERSION"
    by (simp add: CFF_VERSION_def)
  have c2: "sint (?out ! 2) = int ?n"
    using assms(2) by (simp add: sint_nat32)
  have c3: "sint (?out ! 3) = state_reg ctx"
    using assms(3,4) by (simp add: sint_int32)
  have c4: "?out ! 4 = seed ctx"
    by simp
  have ex: "unat ((4 * 4 + 4 :: 64 word) + 32 * word_of_int (int ?n)) = 20 + 32 * ?n"
    by (rule expected_size_nat [OF assms(2)])
  have al: "luaM_malloc L0 (sizeof_int * word_of_int (int ?n))
            = Some (L0\<lparr>allocs := allocs L0 - 1\<rparr>)"
    using assms(1,2,6) by (intro malloc_blocks) simp_all
  define md' where "md' = md\<lparr>md_num_blocks := int ?n, md_state_reg := state_reg ctx,
      md_seed := seed ctx,
      block_mapping := Some (map (\<lambda>i. sint (?out ! (5 + 8 * i))) [0..<?n]),
      enabled := 1\<rparr>"
  have des: "luaO_deserializeMetadata L0 ?out ?needed md = (0, md')"
    unfolding luaO_deserializeMetadata_def Let_def c0 c1 c2 c3 c4
    by (simp add: ex [simplified] al [simplified] md'_def)
  show ?thesis
    using ser des by (intro exI [of _ ?out] exI [of _ ?needed] exI [of _ md']) (simp add: md'_def)
qed

theorem metadata_roundtrip_witness:
  "blocks ctx_four \<noteq> []
   \<and> length (blocks ctx_four) < 2 ^ 31 \<and> state_reg ctx_four = 3 \<and> seed ctx_four = 42
   \<and> 4 * 4 + 4 + 32 * length (blocks ctx_four) \<le> (200::nat) \<and> 0 < allocs L_ex
   \<and> (\<exists>out n md'.
           luaO_serializeMetadata ctx_four (Some (replicate 50 0)) 200 = (0, Some out, n)
         \<and> luaO_deserializeMetadata L_ex out n md_zero = (0, md')
         \<and> md_num_blocks md' = 4 \<and> md_state_reg md' = 3 \<and> md_seed md' = 42)"
proof -
  have h0: "blocks ctx_four \<noteq> []"
    by (simp add: ctx_four_def bs_four_def)
  have h1: "length (blocks ctx_four) < 2 ^ 31"
    by (simp add: ctx_four_def bs_four_def)
  have v: "state_reg ctx_four = 3" "seed ctx_four = 42" "num_blocks ctx_four = 4"
    by (simp_all add: ctx_four_def ctx_if_def bs_four_def)
  have h2: "- (2 ^ 31) \<le> state_reg ctx_four" and h3: "state_reg ctx_four < 2 ^ 31"
    by (simp_all add: v)
  have h4: "4 * 4 + 4 + 32 * length (blocks ctx_four) \<le> (200::nat)"
    by (simp add: ctx_four_def bs_four_def)
  have h5: "0 < allocs L_ex"
    by (simp add: L_ex_def)
  from metadata_roundtrip [OF h0 h1 h2 h3 h4 h5, of "replicate 50 0" md_zero]
  have "\<exists>out n md'.
           luaO_serializeMetadata ctx_four (Some (replicate 50 0)) 200 = (0, Some out, n)
         \<and> luaO_deserializeMetadata L_ex out n md_zero = (0, md')
         \<and> md_num_blocks md' = 4 \<and> md_state_reg md' = 3 \<and> md_seed md' = 42"
    unfolding v .
  with h0 h1 v h4 h5 show ?thesis
    by (intro conjI)
qed

lemma deserialize_bad_header:
  assumes "sz < 20 \<or> sint (buffer ! 0) \<noteq> CFF_MAGIC \<or> sint (buffer ! 1) \<noteq> CFF_VERSION"
  shows "luaO_deserializeMetadata L0 buffer sz metadata = (-1, metadata)"
  using assms by (auto simp: luaO_deserializeMetadata_def Let_def)

lemma deserialize_truncated:
  assumes "20 \<le> sz" "sint (buffer ! 0) = CFF_MAGIC" "sint (buffer ! 1) = CFF_VERSION"
    and "sz < unat ((20 :: 64 word) + 32 * word_of_int (sint (buffer ! 2)))"
  shows "luaO_deserializeMetadata L0 buffer sz metadata
         = (-1, metadata\<lparr>md_num_blocks := sint (buffer ! 2), md_state_reg := sint (buffer ! 3),
                          md_seed := buffer ! 4\<rparr>)"
  using assms by (simp add: luaO_deserializeMetadata_def Let_def)

text \<open>
  C9. A 20-byte buffer with the right magic number and version whose header announces
  one block is truncated: the call fails, and it leaves the block count, the state
  register and the seed of the header in the caller's structure.
\<close>

theorem deserialize_truncated_modifies:
  "luaO_deserializeMetadata L_ex buf_truncated 20 md_zero
     = (-1, md_zero\<lparr>md_num_blocks := 1, md_state_reg := 7, md_seed := 99\<rparr>)
   \<and> md_zero\<lparr>md_num_blocks := 1, md_state_reg := 7, md_seed := 99\<rparr> \<noteq> md_zero"
  by (simp add: luaO_deserializeMetadata_def Let_def buf_truncated_def md_zero_def
      CFF_MAGIC_def CFF_VERSION_def)

subsection \<open>The eligibility checks of luaO_flatten\<close>

text \<open>
  C3. With the CFF flag set, a function of fewer than four instructions, or one that
  holds a loop opcode (FORLOOP, FORPREP, TFORPREP, TFORLOOP, TFORCALL), or one whose
  analysis yields fewer than two blocks, is returned with status 0 as it was given:
  the instruction array and every other field.
\<close>

theorem luaO_flatten_skip:
  assumes "has_flag flags OBFUSCATE_CFF"
    and "sizecode p < 4
         \<or> (\<exists>i \<in> set (code p). is_loop_opcode (GET_OPCODE i))
         \<or> (\<exists>ctx0 ctx1. initContext L0 p flags sd = Some ctx0
                \<and> luaO_identifyBlocks H ctx0 = Some ctx1 \<and> num_blocks ctx1 < 2)"
  shows "luaO_flatten H L0 g p flags sd = (0, p, g)"
  using assms by (auto simp: luaO_flatten_def list_ex_iff)

theorem luaO_flatten_skip_witness:
  "has_flag 1 OBFUSCATE_CFF
   \<and> sizecode p_short < 4
   \<and> luaO_flatten H_ex L_ex g_ex p_short 1 42 = (0, p_short, g_ex)
   \<and> is_loop_opcode (GET_OPCODE (code p_loop ! 1))
   \<and> luaO_flatten H_ex L_ex g_ex p_loop 1 42 = (0, p_loop, g_ex)
   \<and> map_option num_blocks (Option.bind (initContext L_ex p_straight 1 42)
                              (luaO_identifyBlocks H_ex)) = Some 1
   \<and> luaO_flatten H_ex L_ex g_ex p_straight 1 42 = (0, p_straight, g_ex)"
proof -
  have fl: "has_flag 1 OBFUSCATE_CFF"
    by (simp add: has_flag_def OBFUSCATE_CFF_def)
  have short: "sizecode p_short < 4"
    by (simp add: p_short_def)
  have lp: "is_loop_opcode (GET_OPCODE (code p_loop ! 1))"
    by (simp add: p_loop_def is_loop_opcode_def opcode_defs)
  have lp_in: "code p_loop ! 1 \<in> set (code p_loop)"
    by (simp add: p_loop_def)
  have nb: "map_option num_blocks (Option.bind (initContext L_ex p_straight 1 42)
                                     (luaO_identifyBlocks H_ex)) = Some 1"
    by code_simp
  then obtain ctx0 ctx1 where an: "initContext L_ex p_straight 1 42 = Some ctx0"
      "luaO_identifyBlocks H_ex ctx0 = Some ctx1" "num_blocks ctx1 < 2"
    by (auto simp: bind_eq_Some_conv)
  have r1: "luaO_flatten H_ex L_ex g_ex p_short 1 42 = (0, p_short, g_ex)"
    using luaO_flatten_skip [OF fl, of p_short] short by blast
  have r2: "luaO_flatten H_ex L_ex g_ex p_loop 1 42 = (0, p_loop, g_ex)"
    using luaO_flatten_skip [OF fl, of p_loop] lp lp_in by blast
  have r3: "luaO_flatten H_ex L_ex g_ex p_straight 1 42 = (0, p_straight, g_ex)"
    using luaO_flatten_skip [OF fl, of p_straight L_ex 42 H_ex] an by blast
  from fl short r1 lp r2 nb r3 show ?thesis
    by (intro conjI)
qed

subsection \<open>The jumps of the dispatcher\<close>

text \<open>
  C4. The function \<open>p_if\<close> with the flags \<open>CFF | BOGUS_BLOCKS\<close> and seed 42: four
  blocks, eight bogus states. The generator succeeds and records twelve jumps, at
  2, 4, ..., 24. The four jumps of the blocks are patched and lead to 26, 32, 33 and 34
  of the 35 instructions. The eight jumps of the bogus states are left as they were
  emitted, \<open>CREATE_sJ(OP_JMP, 0, 0)\<close>, whose target lies before the array.
\<close>

theorem generateDispatcher_bogus_unpatched:
  "map_option
     (\<lambda>(c, jmp_pcs, starts).
        (num_blocks c, length (new_code c), jmp_pcs,
         map (\<lambda>pc. new_code c ! nat pc) (drop 4 jmp_pcs),
         map (\<lambda>pc. luaO_getJumpTarget H_ex (new_code c ! nat pc) pc) jmp_pcs))
     (Option.bind (luaO_identifyBlocks H_ex ctx_bogus) (generateDispatcher_run H_ex))
   = Some (4, 35, [2, 4, 6, 8, 10, 12, 14, 16, 18, 20, 22, 24],
           replicate 8 (CREATE_sJ OP_JMP 0 0),
           [26, 32, 33, 34, - 16777204, - 16777202, - 16777200, - 16777198,
            - 16777196, - 16777194, - 16777192, - 16777190])"
  by code_simp

subsection \<open>VM protection and the list of VM code tables\<close>

lemma emitVMInstruction_frame:
  assumes "emitVMInstruction ctx inst = Some (n, ctx')"
  shows "vm_frame ctx ctx'" and "vm_code ctx' = vm_code ctx @ [inst]"
  using assms
  by (auto simp: emitVMInstruction_def ensureVMCodeCapacity_def Let_def vm_frame_def
           split: option.splits if_splits)

lemma convertLuaInstToVM_frame:
  assumes "convertLuaInstToVM H ctx inst pc = Some ctx'"
  shows "vm_frame ctx ctx'" and "length (vm_code ctx') = length (vm_code ctx) + 1"
proof -
  from assms obtain e n where em: "emitVMInstruction ctx e = Some (n, ctx')"
    by (auto simp: convertLuaInstToVM_def Let_def split: option.splits prod.splits)
  from emitVMInstruction_frame [OF em]
  show "vm_frame ctx ctx'" and "length (vm_code ctx') = length (vm_code ctx) + 1"
    by simp_all
qed

lemma convert_insts_frame:
  "convert_insts H insts pc ctx = Some ctx' \<Longrightarrow>
     vm_frame ctx ctx' \<and> length (vm_code ctx') = length (vm_code ctx) + length insts"
proof (induction insts arbitrary: pc ctx)
  case Nil
  then show ?case by (simp add: vm_frame_def)
next
  case (Cons inst rest)
  from Cons.prems obtain ctx1 where
    c: "convertLuaInstToVM H ctx inst pc = Some ctx1"
    and r: "convert_insts H rest (pc + 1) ctx1 = Some ctx'"
    by (auto split: option.splits)
  from Cons.IH [OF r] convertLuaInstToVM_frame [OF c] show ?case
    by (simp add: vm_frame_def)
qed

lemma luaO_convertToVM_result:
  assumes "luaO_convertToVM H ctx = Some ctx'"
  shows "vm_frame ctx ctx'"
    and "length (vm_code ctx') = length (vm_code ctx) + length (code (vm_f ctx)) + 1"
    and "last (vm_code ctx')
         = encryptVMInstruction (VM_MAKE_INST VM_OP_HALT 0 0 0 0) (encrypt_key ctx)
             (sizecode (vm_f ctx))"
proof -
  from assms obtain ctx1 n where
    c: "convert_insts H (code (vm_f ctx)) 0 ctx = Some ctx1"
    and e: "emitVMInstruction ctx1
              (encryptVMInstruction (VM_MAKE_INST VM_OP_HALT 0 0 0 0) (encrypt_key ctx1)
                 (sizecode (vm_f ctx1))) = Some (n, ctx')"
    by (auto simp: luaO_convertToVM_def Let_def split: option.splits)
  note f1 = convert_insts_frame [OF c]
  note f2 = emitVMInstruction_frame [OF e]
  from f1 f2 show "vm_frame ctx ctx'"
    by (simp add: vm_frame_def)
  from f1 f2 show "length (vm_code ctx') = length (vm_code ctx) + length (code (vm_f ctx)) + 1"
    by simp
  from f1 f2 show "last (vm_code ctx')
         = encryptVMInstruction (VM_MAKE_INST VM_OP_HALT 0 0 0 0) (encrypt_key ctx)
             (sizecode (vm_f ctx))"
    by (simp add: vm_frame_def)
qed

lemma luaO_initVMContext_result:
  assumes "luaO_initVMContext H L0 p sd = Some ctx"
  shows "encrypt_key ctx
         = push_bit 32 (ucast (NEXT_RAND sd)) OR ucast (NEXT_RAND (NEXT_RAND sd))"
    and "reverse_map ctx
         = fill_reverse_map (random_opcode_map (NUM_OPCODES H) (sd XOR 0xDEADBEEF)) 0
             (replicate (nat VM_OP_COUNT) (-1))"
    and "vm_f ctx = p" and "vm_code ctx = []"
  using assms
  by (auto simp: luaO_initVMContext_def Let_def split: option.splits)

lemma key_low_half:
  fixes a b :: "32 word"
  shows "(push_bit 32 (ucast a :: 64 word) OR ucast b) AND 0xFFFFFFFF = ucast b"
proof -
  have m: "(0xFFFFFFFF :: 64 word) = mask 32"
    by (simp add: mask_eq_exp_minus_1)
  show ?thesis
    unfolding m
    by (rule bit_word_eqI) (auto simp: bit_simps dest: bit_imp_le_length)
qed

text \<open>
  The run behind a successful call on at least four instructions: the context is
  built, the conversion of the function succeeds in it, and the function is returned
  with the two fields written.
\<close>

lemma luaO_vmProtect_success:
  assumes "luaO_vmProtect H L0 g p sd = (0, p', g')" and "4 \<le> sizecode p"
  obtains ctx ctx1 where
    "luaO_initVMContext H L0 p sd = Some ctx"
    "luaO_convertToVM H ctx = Some ctx1"
    "g' = g"
    "p' = p\<lparr>difierline_mode := difierline_mode p OR OBFUSCATE_VM_PROTECT,
              difierline_data := (difierline_data p AND 0xFFFFFFFF00000000)
                                   OR (encrypt_key ctx1 AND 0xFFFFFFFF)\<rparr>"
  using assms
  by (auto simp: luaO_vmProtect_def split: option.splits if_splits)

lemma vmProtect_p_if:
  "luaO_vmProtect H_ex L_ex g_ex p_if 7
   = (0, p_if\<lparr>difierline_mode := 128, difierline_data := 3923423697\<rparr>, g_ex)"
  by code_simp

text \<open>
  C7, as stated, fails: \<open>luaO_vmProtect\<close> on the five instructions of \<open>p_if\<close>, with
  an empty list of VM code tables, returns 0; the list is still empty and a lookup of
  the function finds no table.
\<close>

theorem luaO_vmProtect_no_entry:
  "luaO_vmProtect H_ex L_ex g_ex p_if 7
     = (0, p_if\<lparr>difierline_mode := 128, difierline_data := 3923423697\<rparr>, g_ex)
   \<and> sizecode p_if = 5
   \<and> vm_code_list g_ex = []
   \<and> fst (luaO_findVMCode g_ex
             (p_if\<lparr>difierline_mode := 128, difierline_data := 3923423697\<rparr>)) = None"
  using vmProtect_p_if
  by (simp add: luaO_findVMCode_def g_ex_def p_if_def)

text \<open>
  C7, amended. A successful \<open>luaO_vmProtect\<close> on a function of at least four
  instructions leaves the list of VM code tables as it was, so that a lookup of the
  function finds what it found before the call. The pass has built its context and
  converted the function in it: the context holds the 64-bit key made from the seed,
  the reverse opcode map of the random opcode map, and a buffer of one word for each
  instruction and a last word, the encrypted HALT instruction. The function keeps
  its instructions and its table pointer; the call sets the VM_PROTECT bit of its
  mode field and stores the low 32 bits of the key in the low half of its data field.
\<close>

theorem luaO_vmProtect_effect:
  assumes "luaO_vmProtect H L0 g p sd = (0, p', g')" and "4 \<le> sizecode p"
  shows "g' = g
       \<and> fst (luaO_findVMCode g' p') = fst (luaO_findVMCode g p)
       \<and> (\<exists>ctx ctx1.
              luaO_initVMContext H L0 p sd = Some ctx
            \<and> luaO_convertToVM H ctx = Some ctx1
            \<and> encrypt_key ctx1
                = push_bit 32 (ucast (NEXT_RAND sd)) OR ucast (NEXT_RAND (NEXT_RAND sd))
            \<and> reverse_map ctx1
                = fill_reverse_map (random_opcode_map (NUM_OPCODES H) (sd XOR 0xDEADBEEF)) 0
                    (replicate (nat VM_OP_COUNT) (-1))
            \<and> length (vm_code ctx1) = length (code p) + 1
            \<and> last (vm_code ctx1)
                = encryptVMInstruction (VM_MAKE_INST VM_OP_HALT 0 0 0 0) (encrypt_key ctx1)
                    (sizecode p))
       \<and> code p' = code p
       \<and> vm_code_table p' = vm_code_table p
       \<and> difierline_mode p' = difierline_mode p OR OBFUSCATE_VM_PROTECT
       \<and> difierline_data p' = (difierline_data p AND 0xFFFFFFFF00000000)
                                 OR ucast (NEXT_RAND (NEXT_RAND sd))"
proof -
  from assms obtain ctx ctx1 where
    i: "luaO_initVMContext H L0 p sd = Some ctx"
    and c: "luaO_convertToVM H ctx = Some ctx1"
    and g: "g' = g"
    and p': "p' = p\<lparr>difierline_mode := difierline_mode p OR OBFUSCATE_VM_PROTECT,
                      difierline_data := (difierline_data p AND 0xFFFFFFFF00000000)
                                           OR (encrypt_key ctx1 AND 0xFFFFFFFF)\<rparr>"
    by (rule luaO_vmProtect_success)
  note ir = luaO_initVMContext_result [OF i]
  note cr = luaO_convertToVM_result [OF c]
  have key: "encrypt_key ctx1
             = push_bit 32 (ucast (NEXT_RAND sd)) OR ucast (NEXT_RAND (NEXT_RAND sd))"
    using cr(1) ir(1) by (simp add: vm_frame_def)
  have rmap: "reverse_map ctx1
              = fill_reverse_map (random_opcode_map (NUM_OPCODES H) (sd XOR 0xDEADBEEF)) 0
                  (replicate (nat VM_OP_COUNT) (-1))"
    using cr(1) ir(2) by (simp add: vm_frame_def)
  have len: "length (vm_code ctx1) = length (code p) + 1"
    using cr(2) ir(3,4) by simp
  have halt: "last (vm_code ctx1)
              = encryptVMInstruction (VM_MAKE_INST VM_OP_HALT 0 0 0 0) (encrypt_key ctx1)
                  (sizecode p)"
    using cr(1,3) ir(3) by (simp add: vm_frame_def)
  have low: "encrypt_key ctx1 AND 0xFFFFFFFF = ucast (NEXT_RAND (NEXT_RAND sd))"
    unfolding key by (rule key_low_half)
  have ctxs: "\<exists>ctx ctx1.
              luaO_initVMContext H L0 p sd = Some ctx
            \<and> luaO_convertToVM H ctx = Some ctx1
            \<and> encrypt_key ctx1
                = push_bit 32 (ucast (NEXT_RAND sd)) OR ucast (NEXT_RAND (NEXT_RAND sd))
            \<and> reverse_map ctx1
                = fill_reverse_map (random_opcode_map (NUM_OPCODES H) (sd XOR 0xDEADBEEF)) 0
                    (replicate (nat VM_OP_COUNT) (-1))
            \<and> length (vm_code ctx1) = length (code p) + 1
            \<and> last (vm_code ctx1)
                = encryptVMInstruction (VM_MAKE_INST VM_OP_HALT 0 0 0 0) (encrypt_key ctx1)
                    (sizecode p)"
    using i c key rmap len halt by (intro exI [of _ ctx] exI [of _ ctx1] conjI)
  have fnd: "fst (luaO_findVMCode g' p') = fst (luaO_findVMCode g p)"
    unfolding g p' by (simp add: luaO_findVMCode_def split: option.splits)
  have flds: "code p' = code p" "vm_code_table p' = vm_code_table p"
    "difierline_mode p' = difierline_mode p OR OBFUSCATE_VM_PROTECT"
    "difierline_data p' = (difierline_data p AND 0xFFFFFFFF00000000)
                            OR ucast (NEXT_RAND (NEXT_RAND sd))"
    unfolding p' by (simp_all add: low)
  from g fnd ctxs flds show ?thesis
    by (intro conjI)
qed

theorem luaO_vmProtect_effect_witness:
  "fst (luaO_vmProtect H_ex L_ex g_ex p_straight 42) = 0
   \<and> 4 \<le> sizecode p_straight
   \<and> snd (snd (luaO_vmProtect H_ex L_ex g_ex p_straight 42)) = g_ex
   \<and> (\<exists>ctx ctx1.
          luaO_initVMContext H_ex L_ex p_straight 42 = Some ctx
        \<and> luaO_convertToVM H_ex ctx = Some ctx1
        \<and> length (vm_code ctx1) = 6)
   \<and> code (fst (snd (luaO_vmProtect H_ex L_ex g_ex p_straight 42))) = code p_straight
   \<and> difierline_mode (fst (snd (luaO_vmProtect H_ex L_ex g_ex p_straight 42))) = 128
   \<and> fst (luaO_findVMCode (snd (snd (luaO_vmProtect H_ex L_ex g_ex p_straight 42)))
                           (fst (snd (luaO_vmProtect H_ex L_ex g_ex p_straight 42)))) = None"
proof -
  have st: "fst (luaO_vmProtect H_ex L_ex g_ex p_straight 42) = 0"
    by code_simp
  then obtain p' g' where run: "luaO_vmProtect H_ex L_ex g_ex p_straight 42 = (0, p', g')"
    by (cases "luaO_vmProtect H_ex L_ex g_ex p_straight 42") simp
  have sz: "4 \<le> sizecode p_straight"
    by (simp add: p_straight_def)
  have n: "length (code p_straight) + 1 = 6"
    by (simp add: p_straight_def)
  have before: "fst (luaO_findVMCode g_ex p_straight) = None"
    by (simp add: luaO_findVMCode_def g_ex_def p_straight_def p_if_def)
  have md: "difierline_mode p_straight OR OBFUSCATE_VM_PROTECT = 128"
    by (simp add: p_straight_def p_if_def OBFUSCATE_VM_PROTECT_def)
  note e = luaO_vmProtect_effect [OF run sz]
  have g: "g' = g_ex"
    using e by (rule conjunct1)
  have fnd: "fst (luaO_findVMCode g' p') = None"
    using e before by auto
  have cx: "\<exists>ctx ctx1.
          luaO_initVMContext H_ex L_ex p_straight 42 = Some ctx
        \<and> luaO_convertToVM H_ex ctx = Some ctx1
        \<and> length (vm_code ctx1) = 6"
    using e n by auto
  have c: "code p' = code p_straight"
    using e by auto
  have m: "difierline_mode p' = 128"
    using e md by auto
  from st sz g cx fnd c m show ?thesis
    unfolding run by simp
qed

end
